theory Spec2Isabelle
  imports Complex_Main "HOL-Library.Word" "HOL-Library.Signed_Division"
begin

unbundle bit_operations_syntax

section \<open>Values of the PL scripting language\<close>

text \<open>
  The evaluator of \<^verbatim>\<open>pl/eval.go\<close> works on tagged values. A function of this
  development returns an \<open>option\<close>: \<open>None\<close> means that the Go function does not
  return normally (a runtime panic such as an index out of range, a failed
  \<^verbatim>\<open>must\<close> assertion, a fatal log, or a loop that never ends). A Go result
  \<^verbatim>\<open>(Val, error)\<close> is a sum, \<open>Inl\<close> carrying the error.
\<close>

type_synonym int64 = "64 word"

text \<open>
  Go's \<^verbatim>\<open>float64\<close>. The IEEE special values are constructors; a finite value is its
  exact rational, so rounding, overflow to infinity and the sign of zero are left out.
  The embedding agrees with the code wherever the IEEE operation is exact.
\<close>

datatype float64 = Finite rat | PosInf | NegInf | NaN

definition f64_neg :: "float64 \<Rightarrow> float64" where
  "f64_neg a = (case a of Finite x \<Rightarrow> Finite (- x) | PosInf \<Rightarrow> NegInf
                | NegInf \<Rightarrow> PosInf | NaN \<Rightarrow> NaN)"

definition f64_add :: "float64 \<Rightarrow> float64 \<Rightarrow> float64" where
  "f64_add a b = (case (a, b) of
       (NaN, _) \<Rightarrow> NaN
     | (_, NaN) \<Rightarrow> NaN
     | (Finite x, Finite y) \<Rightarrow> Finite (x + y)
     | (PosInf, NegInf) \<Rightarrow> NaN
     | (NegInf, PosInf) \<Rightarrow> NaN
     | (PosInf, _) \<Rightarrow> PosInf
     | (NegInf, _) \<Rightarrow> NegInf
     | (_, PosInf) \<Rightarrow> PosInf
     | (_, NegInf) \<Rightarrow> NegInf)"

definition f64_sub :: "float64 \<Rightarrow> float64 \<Rightarrow> float64" where
  "f64_sub a b = f64_add a (f64_neg b)"

definition f64_sign :: "float64 \<Rightarrow> int" where
  "f64_sign a = (case a of Finite x \<Rightarrow> (if x < 0 then - 1 else if x = 0 then 0 else 1)
                 | PosInf \<Rightarrow> 1 | NegInf \<Rightarrow> - 1 | NaN \<Rightarrow> 0)"

definition f64_inf :: "int \<Rightarrow> float64" where
  "f64_inf s = (if s < 0 then NegInf else if s = 0 then NaN else PosInf)"

definition f64_mul :: "float64 \<Rightarrow> float64 \<Rightarrow> float64" where
  "f64_mul a b = (case (a, b) of
       (NaN, _) \<Rightarrow> NaN
     | (_, NaN) \<Rightarrow> NaN
     | (Finite x, Finite y) \<Rightarrow> Finite (x * y)
     | _ \<Rightarrow> f64_inf (f64_sign a * f64_sign b))"

definition f64_div :: "float64 \<Rightarrow> float64 \<Rightarrow> float64" where
  "f64_div a b = (case (a, b) of
       (NaN, _) \<Rightarrow> NaN
     | (_, NaN) \<Rightarrow> NaN
     | (Finite x, Finite y) \<Rightarrow> (if y = 0 then f64_inf (f64_sign a) else Finite (x / y))
     | (Finite x, _) \<Rightarrow> Finite 0
     | (_, Finite y) \<Rightarrow> f64_inf (f64_sign a * (if y < 0 then - 1 else 1))
     | _ \<Rightarrow> NaN)"

definition f64_lt :: "float64 \<Rightarrow> float64 \<Rightarrow> bool" where
  "f64_lt a b = (case (a, b) of
       (NaN, _) \<Rightarrow> False
     | (_, NaN) \<Rightarrow> False
     | (Finite x, Finite y) \<Rightarrow> x < y
     | (NegInf, NegInf) \<Rightarrow> False
     | (NegInf, _) \<Rightarrow> True
     | (PosInf, _) \<Rightarrow> False
     | (_, PosInf) \<Rightarrow> True
     | (_, NegInf) \<Rightarrow> False)"

definition f64_of_int64 :: "int64 \<Rightarrow> float64" where
  "f64_of_int64 i = Finite (of_int (sint i))"

definition f64_of_int :: "int \<Rightarrow> float64" where
  "f64_of_int i = Finite (of_int i)"


type_synonym error = string

datatype opcode =
    BcAdd | BcSub | BcMul | BcDiv | BcMod | BcPow | BcNot | BcNegate
  | BcOr | BcAnd | BcSwap | BcPop | BcDup1 | BcDup2
  | BcJfalse | BcJtrue | BcTernary | BcJump | BcFilter
  | BcLoadInt | BcLoadReal | BcLoadStr | BcLoadTrue | BcLoadFalse | BcLoadNull
  | BcReturn | BcLoadDollar | BcReserveLocal | BcStoreLocal | BcLoadLocal
  | BcPushException | BcPopException | BcLoadException
  | BcHalt | BcNextRule | BcYield | BcEmit

record bytecode =
  opcode :: opcode
  argument :: int

datatype progtype = ProgRule | ProgFunc | ProgIter | ProgConfig | ProgSession | ProgGlobal

text \<open>
  A compiled program, with the fields the embedded opcodes read: the bytecode array and
  the constant pools behind \<^verbatim>\<open>idxInt\<close>, \<^verbatim>\<open>idxReal\<close> and \<^verbatim>\<open>idxStr\<close>.
\<close>

record program =
  name :: string
  progtype :: progtype
  bcList :: "bytecode list"
  intPool :: "int64 list"
  realPool :: "float64 list"
  strPool :: "string list"

record exception =
  handlerPc :: int
  stackSize :: int

datatype ftype =
    FtypeTop | FtypeScript | FtypeIntrinsic | FtypeRule
  | FtypeMethod | FtypeSFunc | FtypeNFunc | FtypeSIter

text \<open>
  A function frame. A closure is held by reference in the code; the frame keeps the
  address of its closure, which is all the unwinding compares. The field
  \<^verbatim>\<open>event\<close> of a frame is written by \<^verbatim>\<open>markTop\<close> and read nowhere in the
  evaluator; it is left out.
\<close>

record funcframe =
  ftype :: ftype
  farg :: int
  pc :: int
  framep :: int
  prog :: "program option"
  excep :: "exception list"
  closure :: "nat option"

text \<open>A value is a tag with its payload.\<close>

datatype val =
    VNull
  | VInt (Int_val: int64)
  | VReal (Real_val: float64)
  | VBool (Bool_val: bool)
  | VStr (String_val: string)
  | VPair (Pair_val: pair)
  | VList (Data: "val list")
  | VMap (Map_val: "(string \<times> val) list")
  | VFrame (frame: funcframe)
and pair = Pair (First: val) (Second: val)

datatype vtype =
  ValNull | ValInt | ValReal | ValBool | ValStr | ValPair | ValList | ValMap | ValFrame

fun Type :: "val \<Rightarrow> vtype" where
  "Type VNull = ValNull"
| "Type (VInt _) = ValInt"
| "Type (VReal _) = ValReal"
| "Type (VBool _) = ValBool"
| "Type (VStr _) = ValStr"
| "Type (VPair _) = ValPair"
| "Type (VList _) = ValList"
| "Type (VMap _) = ValMap"
| "Type (VFrame _) = ValFrame"

definition IsNumber :: "val \<Rightarrow> bool" where
  "IsNumber v = (Type v = ValInt \<or> Type v = ValReal)"

text \<open>
  What the evaluator takes from outside \<^verbatim>\<open>pl/eval.go\<close>: Go's \<^verbatim>\<open>math.Pow\<close>,
  the coercions \<^verbatim>\<open>Val.ToString\<close> and \<^verbatim>\<open>Val.ToBoolean\<close>, and the two texts
  that an error report is formatted from, the source location of an instruction
  (\<^verbatim>\<open>dbgList[pc].where()\<close>) and the listing of the frames of a backtrace.
\<close>

record lib =
  mathPow :: "float64 \<Rightarrow> float64 \<Rightarrow> float64"
  ToString :: "val \<Rightarrow> error + string"
  ToBoolean :: "val \<Rightarrow> bool"
  dbgWhere :: "program \<Rightarrow> int \<Rightarrow> string"
  backtrace :: "funcframe list \<Rightarrow> string"

section \<open>Binary operators\<close>

definition mustReal :: "val \<Rightarrow> float64" where
  "mustReal x = (if Type x = ValInt then f64_of_int64 (Int_val x) else Real_val x)"

text \<open>
  \<^verbatim>\<open>powI\<close>: the loop \<^verbatim>\<open>for i = 2; i <= m; i++ { result *= n }\<close> on
  \<^verbatim>\<open>int64\<close>. The counter wraps around like every Go integer.
\<close>

partial_function (option) powI_loop :: "int64 \<Rightarrow> int64 \<Rightarrow> int64 \<Rightarrow> int64 \<Rightarrow> int64 option" where
  "powI_loop n m i result =
     (if i \<le>s m then powI_loop n m (i + 1) (result * n) else Some result)"

definition powI :: "int64 \<Rightarrow> int64 \<Rightarrow> int64 option" where
  "powI n m = (if m = 0 then Some 1 else powI_loop n m 2 n)"

text \<open>Go's \<^verbatim>\<open>/\<close> and \<^verbatim>\<open>%\<close> on \<^verbatim>\<open>int64\<close> truncate towards zero and wrap around.\<close>

definition int64_div :: "int64 \<Rightarrow> int64 \<Rightarrow> int64" where
  "int64_div a b = word_of_int (sint a sdiv sint b)"

definition int64_mod :: "int64 \<Rightarrow> int64 \<Rightarrow> int64" where
  "int64_mod a b = word_of_int (sint a smod sint b)"

fun doBin :: "lib \<Rightarrow> val \<Rightarrow> val \<Rightarrow> opcode \<Rightarrow> (error + val) option" where
  "doBin L lhs rhs BcSub =
     (if Type lhs = Type rhs \<and> Type lhs = ValInt then
        Some (Inr (VInt (Int_val lhs - Int_val rhs)))
      else if Type lhs = Type rhs \<and> Type lhs = ValReal then
        Some (Inr (VReal (f64_sub (Real_val lhs) (Real_val rhs))))
      else if Type lhs \<noteq> Type rhs \<and> IsNumber lhs \<and> IsNumber rhs then
        Some (Inr (VReal (f64_sub (mustReal lhs) (mustReal rhs))))
      else Some (Inl ''invalid operand for -''))"
| "doBin L lhs rhs BcMul =
     (if Type lhs = Type rhs \<and> Type lhs = ValInt then
        Some (Inr (VInt (Int_val lhs * Int_val rhs)))
      else if Type lhs = Type rhs \<and> Type lhs = ValReal then
        Some (Inr (VReal (f64_mul (Real_val lhs) (Real_val rhs))))
      else if Type lhs \<noteq> Type rhs \<and> IsNumber lhs \<and> IsNumber rhs then
        Some (Inr (VReal (f64_mul (mustReal lhs) (mustReal rhs))))
      else Some (Inl ''invalid operand for *''))"
| "doBin L lhs rhs BcPow =
     (if Type lhs = Type rhs \<and> Type lhs = ValInt then
        (case powI (Int_val lhs) (Int_val rhs) of
           None \<Rightarrow> None
         | Some r \<Rightarrow> Some (Inr (VInt r)))
      else if Type lhs = Type rhs \<and> Type lhs = ValReal then
        Some (Inr (VReal (mathPow L (Real_val lhs) (Real_val rhs))))
      else if Type lhs \<noteq> Type rhs \<and> IsNumber lhs \<and> IsNumber rhs then
        Some (Inr (VReal (mathPow L (mustReal lhs) (mustReal rhs))))
      else Some (Inl ''invalid operand for *''))"
| "doBin L lhs rhs BcMod =
     (if Type lhs = Type rhs \<and> Type lhs = ValInt then
        (if Int_val rhs = 0 then Some (Inl ''divide zero'')
         else Some (Inr (VInt (int64_mod (Int_val lhs) (Int_val rhs)))))
      else Some (Inl ''invalid operand for *''))"
| "doBin L lhs rhs BcDiv =
     (if Type lhs = Type rhs \<and> Type lhs = ValInt then
        (if Int_val rhs = 0 then Some (Inl ''divide zero'')
         else Some (Inr (VInt (int64_div (Int_val lhs) (Int_val rhs)))))
      else if Type lhs = Type rhs \<and> Type lhs = ValReal then
        Some (Inr (VReal (f64_div (Real_val lhs) (Real_val rhs))))
      else if Type lhs \<noteq> Type rhs \<and> IsNumber lhs \<and> IsNumber rhs then
        Some (Inr (VReal (f64_div (mustReal lhs) (mustReal rhs))))
      else Some (Inl ''invalid operand for *''))"
| "doBin L lhs rhs BcAdd =
     (if Type lhs = Type rhs \<and> Type lhs = ValInt then
        Some (Inr (VInt (Int_val lhs + Int_val rhs)))
      else if Type lhs = Type rhs \<and> Type lhs = ValReal then
        Some (Inr (VReal (f64_add (Real_val lhs) (Real_val rhs))))
      else if Type lhs = Type rhs \<and> Type lhs = ValStr then
        Some (Inr (VStr (String_val lhs @ String_val rhs)))
      else if Type lhs \<noteq> Type rhs \<and> IsNumber lhs \<and> IsNumber rhs then
        Some (Inr (VReal (f64_add (mustReal lhs) (mustReal rhs))))
      else if Type lhs \<noteq> Type rhs \<and> (Type lhs = ValStr \<or> Type rhs = ValStr) then
        (case ToString L lhs of
           Inr lhsStr \<Rightarrow>
             (case ToString L rhs of
                Inr rhsStr \<Rightarrow> Some (Inr (VStr (lhsStr @ rhsStr)))
              | Inl _ \<Rightarrow> Some (Inl ''invalid operator for +''))
         | Inl _ \<Rightarrow> Some (Inl ''invalid operator for +''))
      else Some (Inl ''invalid operator for +''))"
| "doBin L lhs rhs _ = None"

definition doNegate :: "val \<Rightarrow> error + val" where
  "doNegate v = (case v of
       VInt i \<Rightarrow> Inr (VInt (- i))
     | VReal r \<Rightarrow> Inr (VReal (f64_neg r))
     | _ \<Rightarrow> Inl ''invalid operand for !'')"



section \<open>Coercions and a host for examples\<close>

text \<open>
  Modelled from the spec: \<^verbatim>\<open>Val.ToBoolean\<close> and \<^verbatim>\<open>Val.ToIndex\<close>, whose file is not
  under \<^verbatim>\<open>src/\<close>. The spec gives \<open>toBool(null) = false\<close>, \<open>toBool(int/real) =
  (value \<noteq> 0)\<close>, \<open>toBool(string) = (length \<noteq> 0)\<close>, \<open>toBool\<close> on containers
  \<open>= (size \<noteq> 0)\<close>, and says that \<open>toIndex\<close> rejects non-integers. A bool is taken as
  itself; a frame marker is taken as true.
\<close>

fun spec_ToBoolean :: "val \<Rightarrow> bool" where
  "spec_ToBoolean VNull = False"
| "spec_ToBoolean (VInt i) = (i \<noteq> 0)"
| "spec_ToBoolean (VReal r) = (r \<noteq> Finite 0)"
| "spec_ToBoolean (VBool b) = b"
| "spec_ToBoolean (VStr s) = (s \<noteq> [])"
| "spec_ToBoolean (VPair p) = True"
| "spec_ToBoolean (VList xs) = (xs \<noteq> [])"
| "spec_ToBoolean (VMap m) = (m \<noteq> [])"
| "spec_ToBoolean (VFrame f) = True"

definition ToIndex :: "val \<Rightarrow> error + int" where
  "ToIndex v = (case v of VInt i \<Rightarrow> Inr (sint i) | _ \<Rightarrow> Inl ''index must be an integer'')"

text \<open>
  A host on which examples run. Its power function is \<^verbatim>\<open>math.Pow\<close> where the result is
  an exact rational (a finite base with an integer exponent); \<open>NaN\<close> stands for every
  other result. Its string coercion accepts strings only, and it prints neither source
  locations nor backtraces.
\<close>

definition example_mathPow :: "float64 \<Rightarrow> float64 \<Rightarrow> float64" where
  "example_mathPow a b = (case (a, b) of
       (Finite x, Finite y) \<Rightarrow>
         (if y = of_int \<lfloor>y\<rfloor> \<and> 0 \<le> y then Finite (x ^ nat \<lfloor>y\<rfloor>)
          else if y = of_int \<lfloor>y\<rfloor> \<and> x \<noteq> 0 then Finite (1 / x ^ nat (- \<lfloor>y\<rfloor>))
          else NaN)
     | _ \<Rightarrow> NaN)"

definition example_ToString :: "val \<Rightarrow> error + string" where
  "example_ToString v = (case v of VStr s \<Rightarrow> Inr s | _ \<Rightarrow> Inl ''cannot convert to string'')"

definition example_lib :: lib where
  "example_lib = \<lparr>mathPow = example_mathPow, ToString = example_ToString,
                  ToBoolean = spec_ToBoolean,
                  dbgWhere = (\<lambda>p n. ''around line ?''), backtrace = (\<lambda>bt. [])\<rparr>"

section \<open>Pairs\<close>

text \<open>
  \<^verbatim>\<open>pl/obj_pair.go\<close>. The setters change the pair in place; here they return the pair
  after the change.
\<close>

definition Index :: "pair \<Rightarrow> val \<Rightarrow> error + val" where
  "Index p idx = (case ToIndex idx of
       Inl err \<Rightarrow> Inl err
     | Inr i \<Rightarrow>
         if i = 0 then Inr (First p)
         else if i = 1 then Inr (Second p)
         else Inl ''invalid index, 0 or 1 is allowed on Pair'')"

definition IndexSet :: "pair \<Rightarrow> val \<Rightarrow> val \<Rightarrow> error + pair" where
  "IndexSet p idx v = (case ToIndex idx of
       Inl err \<Rightarrow> Inl err
     | Inr i \<Rightarrow>
         if i = 0 then Inr (Pair v (Second p))
         else if i = 1 then Inr (Pair (First p) v)
         else Inl ''invalid index, 0 or 1 is allowed on Pair'')"

definition Dot :: "pair \<Rightarrow> string \<Rightarrow> error + val" where
  "Dot p i = (if i = ''first'' then Inr (First p)
              else if i = ''second'' then Inr (Second p)
              else Inl ''invalid field name, 'first'/'second' is allowed on Pair'')"

definition DotSet :: "pair \<Rightarrow> string \<Rightarrow> val \<Rightarrow> error + pair" where
  "DotSet p i v = (if i = ''first'' then Inr (Pair v (Second p))
                   else if i = ''second'' then Inr (Pair (First p) v)
                   else Inl ''invalid field name, 'first'/'second' is allowed on Pair'')"

record PairIter =
  iter_p :: pair
  cnt :: int

definition NewIter :: "pair \<Rightarrow> PairIter" where
  "NewIter x = \<lparr>iter_p = x, cnt = 0\<rparr>"

definition Has :: "PairIter \<Rightarrow> bool" where
  "Has it = (cnt it < 2)"

definition Next :: "PairIter \<Rightarrow> (bool \<times> PairIter)" where
  "Next it = (let it' = it\<lparr>cnt := cnt it + 1\<rparr> in (Has it', it'))"

definition Deref :: "PairIter \<Rightarrow> error + (val \<times> val)" where
  "Deref it = (if cnt it = 0 then Inr (VInt 0, First (iter_p it))
               else if cnt it = 1 then Inr (VInt 1, Second (iter_p it))
               else Inl ''iterator out of bound'')"

text \<open>
  The iterator protocol as a loop drives it (\<^verbatim>\<open>hasIterator\<close>, \<^verbatim>\<open>derefIterator\<close>,
  \<^verbatim>\<open>nextIterator\<close>): while the iterator has an element, read it and step. The result
  is the sequence read, or the error of a failed read.
\<close>

function iterate :: "PairIter \<Rightarrow> error + (val \<times> val) list" where
  "iterate it =
     (if Has it then
        (case Deref it of
           Inl err \<Rightarrow> Inl err
         | Inr kv \<Rightarrow>
             (case iterate (snd (Next it)) of
                Inl err \<Rightarrow> Inl err
              | Inr rest \<Rightarrow> Inr (kv # rest)))
      else Inr [])"
  by pat_completeness auto
termination
  by (relation "measure (\<lambda>it. nat (2 - cnt it))") (auto simp: Has_def Next_def Let_def)


section \<open>Query intrinsics\<close>

text \<open>
  \<^verbatim>\<open>pl/mod_query.go\<close>. Go reads a slice with a bounds check; \<open>slice_at\<close> is that read, and
  \<open>None\<close> is the panic of an index out of range.
\<close>

definition slice_at :: "'a list \<Rightarrow> int \<Rightarrow> 'a option" where
  "slice_at xs i = (if 0 \<le> i \<and> i < int (length xs) then Some (xs ! nat i) else None)"

text \<open>
  Modelled from the spec: \<^verbatim>\<open>IntrinsicInfo.Check\<close>, which validates the arguments
  against the signature the intrinsic is registered with, and the string-keyed
  \<^verbatim>\<open>Map\<close> that preserves insertion order; neither file is under \<^verbatim>\<open>src/\<close>.
  \<^verbatim>\<open>q::select\<close> is registered with \<^verbatim>\<open>{%l}{%l%d*}{%m}{%m%s*}\<close>, the aggregations
  with \<^verbatim>\<open>{%l}\<close>.
\<close>

definition Check_select :: "val list \<Rightarrow> bool" where
  "Check_select args = (case args of
       VList l # rest \<Rightarrow> list_all (\<lambda>v. Type v = ValInt) rest
     | VMap m # rest \<Rightarrow> list_all (\<lambda>v. Type v = ValStr) rest
     | _ \<Rightarrow> False)"

definition Check_list :: "val list \<Rightarrow> bool" where
  "Check_list args = (case args of [VList l] \<Rightarrow> True | _ \<Rightarrow> False)"

definition Get :: "(string \<times> val) list \<Rightarrow> string \<Rightarrow> val option" where
  "Get m key = map_of m key"

definition AddMap :: "(string \<times> val) list \<Rightarrow> string \<Rightarrow> val \<Rightarrow> (string \<times> val) list" where
  "AddMap m key v = (if key \<in> fst ` set m
                     then map (\<lambda>(k, w). if k = key then (k, v) else (k, w)) m
                     else m @ [(key, v)])"

text \<open>
  The loop of \<^verbatim>\<open>qSelect\<close> over the selectors of a list: the guard is
  \<^verbatim>\<open>idx >= 0 && idx <= l.Length()\<close>, the read is \<^verbatim>\<open>l.Data[idx]\<close>.
\<close>

fun qSelect_list :: "val list \<Rightarrow> val list \<Rightarrow> val list \<Rightarrow> val list option" where
  "qSelect_list l [] out = Some out"
| "qSelect_list l (v # vs) out =
     (let idx = sint (Int_val v) in
      if idx \<ge> 0 \<and> idx \<le> int (length l) then
        (case slice_at l idx of
           None \<Rightarrow> None
         | Some x \<Rightarrow> qSelect_list l vs (out @ [x]))
      else qSelect_list l vs out)"

fun qSelect_map :: "(string \<times> val) list \<Rightarrow> val list \<Rightarrow> (string \<times> val) list \<Rightarrow> (string \<times> val) list" where
  "qSelect_map m [] out = out"
| "qSelect_map m (v # vs) out =
     (let key = String_val v in
      case Get m key of
        Some x \<Rightarrow> qSelect_map m vs (AddMap out key x)
      | None \<Rightarrow> qSelect_map m vs out)"

definition qSelect :: "val list \<Rightarrow> (error + val) option" where
  "qSelect args =
     (if \<not> Check_select args then Some (Inl ''invalid arguments'')
      else case args of
          VList l # rest \<Rightarrow>
            (case qSelect_list l rest [] of
               None \<Rightarrow> None
             | Some out \<Rightarrow> Some (Inr (VList out)))
        | VMap m # rest \<Rightarrow> Some (Inr (VMap (qSelect_map m rest [])))
        | _ \<Rightarrow> None)"

datatype numkind = isint | isreal | isnone

fun firstNum_from :: "int \<Rightarrow> val list \<Rightarrow> int64 \<times> float64 \<times> numkind \<times> int" where
  "firstNum_from idx [] = (0, Finite 0, isnone, - 1)"
| "firstNum_from idx (v # vs) =
     (if Type v = ValInt then (Int_val v, Finite 0, isint, idx)
      else if Type v = ValReal then (0, Real_val v, isreal, idx)
      else firstNum_from (idx + 1) vs)"

definition firstNum :: "val list \<Rightarrow> int64 \<times> float64 \<times> numkind \<times> int" where
  "firstNum l = firstNum_from 0 l"

text \<open>
  The joiner of an aggregation is a Go closure; the variables it captures and changes
  (the running count and totals of \<^verbatim>\<open>qAvg\<close> and \<^verbatim>\<open>qCount\<close>) are the state \<open>'s\<close>
  that the loops of \<^verbatim>\<open>qagg\<close> pass along.
\<close>

type_synonym 's joiner =
  "'s \<Rightarrow> int64 \<Rightarrow> int64 \<Rightarrow> float64 \<Rightarrow> float64 \<Rightarrow> numkind \<Rightarrow> (int64 \<times> float64 \<times> numkind) \<times> 's"

fun qagg_int :: "'s joiner \<Rightarrow> val list \<Rightarrow> int64 \<Rightarrow> 's \<Rightarrow> (int64 \<times> 's) option" where
  "qagg_int joiner [] current s = Some (current, s)"
| "qagg_int joiner (v # vs) current s =
     (if Type v = ValInt then
        (case joiner s current (Int_val v) (Finite 0) (Finite 0) isint of
           ((a, _, c), s') \<Rightarrow> if c = isint then qagg_int joiner vs a s' else None)
      else qagg_int joiner vs current s)"

fun qagg_real :: "'s joiner \<Rightarrow> val list \<Rightarrow> float64 \<Rightarrow> 's \<Rightarrow> (float64 \<times> 's) option" where
  "qagg_real joiner [] current s = Some (current, s)"
| "qagg_real joiner (v # vs) current s =
     (if Type v = ValReal then
        (case joiner s 0 0 current (Real_val v) isreal of
           ((_, b, c), s') \<Rightarrow> if c = isreal then qagg_real joiner vs b s' else None)
      else qagg_real joiner vs current s)"

definition qagg :: "val list \<Rightarrow> 's joiner \<Rightarrow> 's \<Rightarrow> ((int64 \<times> float64 \<times> numkind) \<times> 's) option" where
  "qagg l joiner s =
     (case firstNum l of (ival, rval, t, idx) \<Rightarrow>
        if t = isint then
          (case qagg_int joiner (drop (nat (idx + 1)) l) ival s of
             None \<Rightarrow> None
           | Some (current, s') \<Rightarrow> Some ((current, Finite 0, isint), s'))
        else if t = isreal then
          (case qagg_real joiner (drop (nat (idx + 1)) l) rval s of
             None \<Rightarrow> None
           | Some (current, s') \<Rightarrow> Some ((0, current, isreal), s'))
        else Some ((0, Finite 0, isnone), s))"

definition qaggret :: "int64 \<Rightarrow> float64 \<Rightarrow> numkind \<Rightarrow> error + val" where
  "qaggret i r t = (case t of isnone \<Rightarrow> Inr VNull | isint \<Rightarrow> Inr (VInt i) | isreal \<Rightarrow> Inr (VReal r))"

definition qMax_joiner :: "unit joiner" where
  "qMax_joiner s iprev icur rprev rcur t =
     (if t = isint then
        (if iprev <s icur then ((icur, Finite 0, isint), s) else ((iprev, Finite 0, isint), s))
      else
        (if f64_lt rprev rcur then ((0, rcur, isreal), s) else ((0, rprev, isreal), s)))"

definition qMax :: "val list \<Rightarrow> (error + val) option" where
  "qMax args =
     (if \<not> Check_list args then Some (Inl ''invalid arguments'')
      else case qagg (Data (hd args)) qMax_joiner () of
          None \<Rightarrow> None
        | Some ((ival, rval, t), _) \<Rightarrow> Some (qaggret ival rval t))"

definition qMin_joiner :: "unit joiner" where
  "qMin_joiner s iprev icur rprev rcur t =
     (if t = isint then
        (if icur <s iprev then ((icur, Finite 0, isint), s) else ((iprev, Finite 0, isint), s))
      else
        (if f64_lt rcur rprev then ((0, rcur, isreal), s) else ((0, rprev, isreal), s)))"

definition qMin :: "val list \<Rightarrow> (error + val) option" where
  "qMin args =
     (if \<not> Check_list args then Some (Inl ''invalid arguments'')
      else case qagg (Data (hd args)) qMin_joiner () of
          None \<Rightarrow> None
        | Some ((ival, rval, t), _) \<Rightarrow> Some (qaggret ival rval t))"

definition qSum_joiner :: "unit joiner" where
  "qSum_joiner s iprev icur rprev rcur t =
     (if t = isint then ((iprev + icur, Finite 0, isint), s)
      else ((0, f64_add rprev rcur, isreal), s))"

definition qSum :: "val list \<Rightarrow> (error + val) option" where
  "qSum args =
     (if \<not> Check_list args then Some (Inl ''invalid arguments'')
      else case qagg (Data (hd args)) qSum_joiner () of
          None \<Rightarrow> None
        | Some ((ival, rval, t), _) \<Rightarrow> Some (qaggret ival rval t))"

record qavginfo =
  count :: int
  rtt :: float64
  itt :: int64

definition qAvg_joiner :: "qavginfo joiner" where
  "qAvg_joiner avg iprev icur rprev rcur t =
     (let avg1 = avg\<lparr>count := count avg + 1\<rparr> in
      if t = isint then ((0, Finite 0, isint), avg1\<lparr>itt := itt avg1 + icur\<rparr>)
      else ((0, Finite 0, isreal), avg1\<lparr>rtt := f64_add (rtt avg1) rcur\<rparr>))"

definition qAvg :: "val list \<Rightarrow> (error + val) option" where
  "qAvg args =
     (if \<not> Check_list args then Some (Inl ''invalid arguments'')
      else case qagg (Data (hd args)) qAvg_joiner \<lparr>count = 0, rtt = Finite 0, itt = 0\<rparr> of
          None \<Rightarrow> None
        | Some ((_, _, t), avg) \<Rightarrow>
            (case t of
               isnone \<Rightarrow> Some (Inr VNull)
             | isint \<Rightarrow> Some (Inr (VReal (f64_div (f64_of_int64 (itt avg)) (f64_of_int (count avg)))))
             | isreal \<Rightarrow> Some (Inr (VReal (f64_div (rtt avg) (f64_of_int (count avg)))))))"

definition qCount_joiner :: "int joiner" where
  "qCount_joiner refCount a b c d t = ((0, Finite 0, t), refCount + 1)"

definition qCount :: "val list \<Rightarrow> (error + val) option" where
  "qCount args =
     (if \<not> Check_list args then Some (Inl ''invalid arguments'')
      else case qagg (Data (hd args)) qCount_joiner 1 of
          None \<Rightarrow> None
        | Some ((_, _, t), n) \<Rightarrow>
            if t = isnone then Some (Inr (VInt 0)) else Some (Inr (VInt (word_of_int n))))"

section \<open>The evaluator\<close>

text \<open>
  \<^verbatim>\<open>pl/eval.go\<close>. The state of an evaluator: the value stack (its top is the end of
  the list), the session values, the current frame and exception, and the event queue.
  The host objects \<^verbatim>\<open>Context\<close> and \<^verbatim>\<open>Config\<close> are opaque: only their presence is
  looked at by the code embedded here. Go's \<^verbatim>\<open>int\<close> is \<open>int\<close>: a program counter or a
  stack size does not come near \<open>2^63\<close>.

  Modelled from the spec: the default event queue \<^verbatim>\<open>defEventQueue\<close>, whose file is not
  under \<^verbatim>\<open>src/\<close>. The spec has it in memory and first-in first-out: \<open>emit\<close> enqueues at
  the end, and draining takes the entries from the front, evaluates each with
  \<^verbatim>\<open>EvalDeferred\<close>, and asks the callback whether to go on when one fails.
\<close>

record evaluator =
  Stack :: "val list"
  Session :: "val list"
  Context :: "unit option"
  Config :: "unit option"
  Event :: "(string \<Rightarrow> error \<Rightarrow> int) option"
  curframe :: funcframe
  curexcep :: val
  eventQ :: "(string \<times> val) list"
  inEventQueue :: bool

definition EventContextContinue :: int where "EventContextContinue = 0"
definition EventContextPuase :: int where "EventContextPuase = 1"
definition EventContextStopAndClear :: int where "EventContextStopAndClear = 2"

subsection \<open>Frames and the stack\<close>

definition markTop :: funcframe where
  "markTop = \<lparr>ftype = FtypeTop, farg = 0, pc = 0, framep = 0, prog = None, excep = [],
              closure = None\<rparr>"

definition isTop :: "funcframe \<Rightarrow> bool" where
  "isTop ff = (ftype ff = FtypeTop)"

definition isScript :: "funcframe \<Rightarrow> bool" where
  "isScript ff = (prog ff \<noteq> None \<and> ftype ff \<noteq> FtypeSIter)"

definition curExcep :: "evaluator \<Rightarrow> exception option" where
  "curExcep e = (if excep (curframe e) = [] then None else Some (last (excep (curframe e))))"

definition pushExcep :: "int \<Rightarrow> int \<Rightarrow> evaluator \<Rightarrow> evaluator" where
  "pushExcep h sz e =
     e\<lparr>curframe := (curframe e)\<lparr>excep := excep (curframe e) @ [\<lparr>handlerPc = h, stackSize = sz\<rparr>]\<rparr>\<rparr>"

definition popExcep :: "evaluator \<Rightarrow> evaluator option" where
  "popExcep e =
     (if excep (curframe e) = [] then None
      else Some (e\<lparr>curframe := (curframe e)\<lparr>excep := butlast (excep (curframe e))\<rparr>\<rparr>))"

definition popN :: "int \<Rightarrow> evaluator \<Rightarrow> evaluator option" where
  "popN k e =
     (let sz = int (length (Stack e)) in
      if 0 \<le> k \<and> sz \<ge> k then Some (e\<lparr>Stack := take (nat (sz - k)) (Stack e)\<rparr>) else None)"

definition pop :: "evaluator \<Rightarrow> evaluator option" where
  "pop e = popN 1 e"

definition popTo :: "int \<Rightarrow> evaluator \<Rightarrow> evaluator option" where
  "popTo sz e =
     (if 0 \<le> sz \<and> int (length (Stack e)) \<ge> sz then Some (e\<lparr>Stack := take (nat sz) (Stack e)\<rparr>)
      else None)"

definition clearStack :: "evaluator \<Rightarrow> evaluator" where
  "clearStack e = e\<lparr>Stack := []\<rparr>"

definition stackSize_of :: "evaluator \<Rightarrow> int" where
  "stackSize_of e = int (length (Stack e))"

definition push :: "val \<Rightarrow> evaluator \<Rightarrow> evaluator" where
  "push v e = e\<lparr>Stack := Stack e @ [v]\<rparr>"

definition topN :: "int \<Rightarrow> evaluator \<Rightarrow> val option" where
  "topN w e = slice_at (Stack e) (int (length (Stack e)) - w - 1)"

definition top0 :: "evaluator \<Rightarrow> val option" where
  "top0 e = topN 0 e"

definition top1 :: "evaluator \<Rightarrow> val option" where
  "top1 e = topN 1 e"

definition localslot :: "int \<Rightarrow> evaluator \<Rightarrow> int" where
  "localslot a e = framep (curframe e) + 1 + a"

definition prevframepos :: "evaluator \<Rightarrow> int" where
  "prevframepos e = framep (curframe e) + farg (curframe e) + 1"

definition prevfuncframe :: "evaluator \<Rightarrow> funcframe option" where
  "prevfuncframe e =
     (case slice_at (Stack e) (prevframepos e) of
        Some (VFrame ff) \<Rightarrow> Some ff
      | _ \<Rightarrow> None)"

definition popfuncframe :: "funcframe \<Rightarrow> evaluator \<Rightarrow> ((int \<times> program option) \<times> evaluator) option" where
  "popfuncframe prev e =
     (case popTo (framep (curframe e)) e of
        None \<Rightarrow> None
      | Some e1 \<Rightarrow> Some ((pc prev - 1, prog prev), e1\<lparr>curframe := prev\<rparr>))"

definition prologue :: "ftype \<Rightarrow> int \<Rightarrow> program option \<Rightarrow> nat option \<Rightarrow> evaluator \<Rightarrow> evaluator" where
  "prologue ft alen p c e =
     (let cf = curframe e;
          newFV = VFrame \<lparr>ftype = ftype cf, farg = farg cf, pc = pc cf + 1, framep = framep cf,
                          prog = prog cf, excep = excep cf, closure = closure cf\<rparr>;
          e1 = push newFV e;
          fp = int (length (Stack e1)) - 2 - alen
      in e1\<lparr>curframe := \<lparr>ftype = ft, farg = alen, pc = 0, framep = fp, prog = p, excep = [],
                          closure = c\<rparr>\<rparr>)"

definition epilogue :: "val \<Rightarrow> bool \<Rightarrow> evaluator \<Rightarrow> ((int \<times> program option) \<times> evaluator) option" where
  "epilogue v isMethod e =
     (case prevfuncframe e of
        None \<Rightarrow> None
      | Some prevcf \<Rightarrow>
          (case popfuncframe prevcf e of
             None \<Rightarrow> None
           | Some (r, e1) \<Rightarrow>
               (case (if isMethod then pop e1 else Some e1) of
                  None \<Rightarrow> None
                | Some e2 \<Rightarrow> Some (r, push v e2))))"

definition emitEvent :: "string \<Rightarrow> val \<Rightarrow> evaluator \<Rightarrow> evaluator" where
  "emitEvent nm ctx e = e\<lparr>eventQ := eventQ e @ [(nm, ctx)]\<rparr>"

definition curevent :: "evaluator \<Rightarrow> val option" where
  "curevent e =
     (case prog (curframe e) of
        None \<Rightarrow> None
      | Some p \<Rightarrow>
          if progtype p = ProgRule then slice_at (Stack e) (framep (curframe e) + 1) else None)"

subsection \<open>The interpreter loop\<close>

datatype rstate = RstateInterrupt | RstateDone | RstateYield | RstateNextRule

record runresult =
  rr_prog :: "program option"
  rr_pc :: int
  rr_e :: "error option"
  rstate :: rstate

definition rrErr :: "program option \<Rightarrow> int \<Rightarrow> error \<Rightarrow> runresult" where
  "rrErr p n err = \<lparr>rr_prog = p, rr_pc = n, rr_e = Some err, rstate = RstateInterrupt\<rparr>"

definition rrNextRule :: "int \<Rightarrow> runresult" where
  "rrNextRule n = \<lparr>rr_prog = None, rr_pc = n, rr_e = None, rstate = RstateNextRule\<rparr>"

definition rrDone :: "int \<Rightarrow> runresult" where
  "rrDone n = \<lparr>rr_prog = None, rr_pc = n, rr_e = None, rstate = RstateDone\<rparr>"

definition rrYield :: "int \<Rightarrow> runresult" where
  "rrYield n = \<lparr>rr_prog = None, rr_pc = n, rr_e = None, rstate = RstateYield\<rparr>"

definition isDone :: "runresult \<Rightarrow> bool" where
  "isDone rr = (rstate rr = RstateDone)"

definition isNextRule :: "runresult \<Rightarrow> bool" where
  "isNextRule rr = (rstate rr = RstateNextRule)"

text \<open>
  One round of the loop of \<^verbatim>\<open>runP\<close>: the case of the instruction \<open>bc\<close> at the counter
  \<open>n\<close> of the program \<open>p\<close>. \<open>Continue p' n' e'\<close> leaves the \<^verbatim>\<open>switch\<close> with the counter
  \<open>n'\<close>, which the loop then increments; \<open>Return\<close> is a \<^verbatim>\<open>return\<close> of the function.
\<close>

datatype stepres = Continue program int evaluator | Return runresult evaluator

definition step_bin :: "lib \<Rightarrow> program \<Rightarrow> int \<Rightarrow> bytecode \<Rightarrow> evaluator \<Rightarrow> stepres option" where
  "step_bin L p n bc e =
     (case top1 e of None \<Rightarrow> None | Some lhs \<Rightarrow>
      case top0 e of None \<Rightarrow> None | Some rhs \<Rightarrow>
      case popN 2 e of None \<Rightarrow> None | Some e1 \<Rightarrow>
      case doBin L lhs rhs (opcode bc) of
        None \<Rightarrow> None
      | Some (Inl err) \<Rightarrow> Some (Return (rrErr (Some p) n err) e1)
      | Some (Inr v) \<Rightarrow> Some (Continue p n (push v e1)))"

definition step_jump_if :: "bool \<Rightarrow> lib \<Rightarrow> program \<Rightarrow> int \<Rightarrow> bytecode \<Rightarrow> evaluator \<Rightarrow> stepres option" where
  "step_jump_if want L p n bc e =
     (case top0 e of None \<Rightarrow> None | Some cond \<Rightarrow>
      case pop e of None \<Rightarrow> None | Some e1 \<Rightarrow>
      if ToBoolean L cond = want then Some (Continue p (argument bc - 1) e1)
      else Some (Continue p n e1))"

definition step :: "lib \<Rightarrow> program \<Rightarrow> int \<Rightarrow> bytecode \<Rightarrow> evaluator \<Rightarrow> stepres option" where
  "step L p n bc e =
     (case opcode bc of
        BcAdd \<Rightarrow> step_bin L p n bc e
      | BcSub \<Rightarrow> step_bin L p n bc e
      | BcMul \<Rightarrow> step_bin L p n bc e
      | BcDiv \<Rightarrow> step_bin L p n bc e
      | BcMod \<Rightarrow> step_bin L p n bc e
      | BcPow \<Rightarrow> step_bin L p n bc e
      | BcNot \<Rightarrow>
          (case top0 e of None \<Rightarrow> None | Some t \<Rightarrow>
           case pop e of None \<Rightarrow> None | Some e1 \<Rightarrow>
           Some (Continue p n (push (VBool (\<not> ToBoolean L t)) e1)))
      | BcNegate \<Rightarrow>
          (case top0 e of None \<Rightarrow> None | Some t \<Rightarrow>
           case pop e of None \<Rightarrow> None | Some e1 \<Rightarrow>
           case doNegate t of
             Inl err \<Rightarrow> Some (Return (rrErr (Some p) n err) e1)
           | Inr v \<Rightarrow> Some (Continue p n (push v e1)))
      | BcOr \<Rightarrow>
          (case top0 e of None \<Rightarrow> None | Some cond \<Rightarrow>
           if ToBoolean L cond then Some (Continue p (argument bc - 1) e)
           else (case pop e of None \<Rightarrow> None | Some e1 \<Rightarrow> Some (Continue p n e1)))
      | BcAnd \<Rightarrow>
          (case top0 e of None \<Rightarrow> None | Some cond \<Rightarrow>
           if \<not> ToBoolean L cond then Some (Continue p (argument bc - 1) e)
           else (case pop e of None \<Rightarrow> None | Some e1 \<Rightarrow> Some (Continue p n e1)))
      | BcSwap \<Rightarrow>
          (let sz = int (length (Stack e)) in
           case slice_at (Stack e) (sz - 1) of None \<Rightarrow> None | Some a \<Rightarrow>
           case slice_at (Stack e) (sz - 2) of None \<Rightarrow> None | Some b \<Rightarrow>
           Some (Continue p n (e\<lparr>Stack := (Stack e)[nat (sz - 1) := b, nat (sz - 2) := a]\<rparr>)))
      | BcPop \<Rightarrow>
          (case pop e of None \<Rightarrow> None | Some e1 \<Rightarrow> Some (Continue p n e1))
      | BcDup1 \<Rightarrow>
          (case top0 e of None \<Rightarrow> None | Some tos \<Rightarrow> Some (Continue p n (push tos e)))
      | BcDup2 \<Rightarrow>
          (case top1 e of None \<Rightarrow> None | Some to1 \<Rightarrow>
           case top0 e of None \<Rightarrow> None | Some to0 \<Rightarrow>
           Some (Continue p n (push to0 (push to1 e))))
      | BcJfalse \<Rightarrow> step_jump_if False L p n bc e
      | BcJtrue \<Rightarrow> step_jump_if True L p n bc e
      | BcTernary \<Rightarrow>
          (case top0 e of None \<Rightarrow> None | Some cond \<Rightarrow>
           case pop e of None \<Rightarrow> None | Some e1 \<Rightarrow>
           if ToBoolean L cond then Some (Continue p (argument bc - 1) e1)
           else (case pop e1 of None \<Rightarrow> None | Some e2 \<Rightarrow> Some (Continue p n e2)))
      | BcJump \<Rightarrow> Some (Continue p (argument bc - 1) e)
      | BcFilter \<Rightarrow> step_jump_if False L p n bc e
      | BcLoadInt \<Rightarrow>
          (case slice_at (intPool p) (argument bc) of None \<Rightarrow> None | Some i \<Rightarrow>
           Some (Continue p n (push (VInt i) e)))
      | BcLoadReal \<Rightarrow>
          (case slice_at (realPool p) (argument bc) of None \<Rightarrow> None | Some r \<Rightarrow>
           Some (Continue p n (push (VReal r) e)))
      | BcLoadStr \<Rightarrow>
          (case slice_at (strPool p) (argument bc) of None \<Rightarrow> None | Some s \<Rightarrow>
           Some (Continue p n (push (VStr s) e)))
      | BcLoadTrue \<Rightarrow> Some (Continue p n (push (VBool True) e))
      | BcLoadFalse \<Rightarrow> Some (Continue p n (push (VBool False) e))
      | BcLoadNull \<Rightarrow> Some (Continue p n (push VNull e))
      | BcReturn \<Rightarrow>
          (let ft = ftype (curframe e) in
           case top0 e of None \<Rightarrow> None | Some rv \<Rightarrow>
           case epilogue rv False e of None \<Rightarrow> None | Some ((n', p'), e1) \<Rightarrow>
           (case p' of
              None \<Rightarrow> Some (Return (rrDone n') e1)
            | Some q \<Rightarrow>
                if ft = FtypeSIter then Some (Return (rrDone n') e1)
                else Some (Continue q n' e1)))
      | BcLoadDollar \<Rightarrow>
          (case curevent e of None \<Rightarrow> None | Some v \<Rightarrow> Some (Continue p n (push v e)))
      | BcReserveLocal \<Rightarrow>
          Some (Continue p n (e\<lparr>Stack := Stack e @ replicate (nat (argument bc)) VNull\<rparr>))
      | BcStoreLocal \<Rightarrow>
          (case top0 e of None \<Rightarrow> None | Some v \<Rightarrow>
           case slice_at (Stack e) (localslot (argument bc) e) of None \<Rightarrow> None | Some _ \<Rightarrow>
           case pop (e\<lparr>Stack := (Stack e)[nat (localslot (argument bc) e) := v]\<rparr>) of
             None \<Rightarrow> None
           | Some e1 \<Rightarrow> Some (Continue p n e1))
      | BcLoadLocal \<Rightarrow>
          (case slice_at (Stack e) (localslot (argument bc) e) of None \<Rightarrow> None | Some v \<Rightarrow>
           Some (Continue p n (push v e)))
      | BcPushException \<Rightarrow>
          Some (Continue p n (pushExcep (argument bc) (stackSize_of e) e))
      | BcPopException \<Rightarrow>
          (case popExcep e of None \<Rightarrow> None | Some e1 \<Rightarrow>
           Some (Continue p (argument bc - 1) e1))
      | BcLoadException \<Rightarrow> Some (Continue p n (push (curexcep e) e))
      | BcHalt \<Rightarrow> Some (Return (rrDone n) (push VNull e))
      | BcNextRule \<Rightarrow> Some (Return (rrNextRule n) e)
      | BcYield \<Rightarrow> Some (Return (rrYield (n + 1)) e)
      | BcEmit \<Rightarrow>
          (case top0 e of None \<Rightarrow> None | Some ctx \<Rightarrow>
           case top1 e of None \<Rightarrow> None | Some nm \<Rightarrow>
           case popN 2 e of None \<Rightarrow> None | Some e1 \<Rightarrow>
           if Type nm = ValStr then Some (Continue p n (emitEvent (String_val nm) ctx e1))
           else None))"

text \<open>
  \<^verbatim>\<open>runP\<close>: fetch the instruction at the counter (a counter outside the bytecode array
  is a panic), run its case, and go on at the next counter until a case returns.
\<close>

partial_function (option) runP :: "lib \<Rightarrow> program \<Rightarrow> int \<Rightarrow> evaluator \<Rightarrow> (runresult \<times> evaluator) option" where
  "runP L p n e =
     (case slice_at (bcList p) n of
        None \<Rightarrow> None
      | Some bc \<Rightarrow>
          (case step L p n bc e of
             None \<Rightarrow> None
           | Some (Return rr e') \<Rightarrow> Some (rr, e')
           | Some (Continue p' n' e') \<Rightarrow> runP L p' (n' + 1) e'))"

subsection \<open>Unwinding\<close>

text \<open>
  The loop of \<^verbatim>\<open>unwindForExcep\<close>. Its result is the handler's counter, the program to
  resume, the backtrace and whether a handler caught the error. The error is \<open>None\<close>
  when the interpreter stopped with no error (a \<^verbatim>\<open>yield\<close>); reading its message is
  then a panic.
\<close>

partial_function (option) unwind_loop ::
  "(evaluator \<Rightarrow> bool) \<Rightarrow> error option \<Rightarrow> funcframe list \<Rightarrow> evaluator \<Rightarrow>
   ((int \<times> program option \<times> funcframe list \<times> bool) \<times> evaluator) option" where
  "unwind_loop breaker err bt e =
     (if isTop (curframe e) then Some ((- 1, None, bt, False), e)
      else if breaker e then Some ((- 1, None, bt, False), e)
      else
        (case (if isScript (curframe e) then curExcep e else None) of
           Some xp \<Rightarrow>
             (case popTo (stackSize xp) e of None \<Rightarrow> None | Some e1 \<Rightarrow>
              case err of None \<Rightarrow> None | Some msg \<Rightarrow>
              case popExcep (e1\<lparr>curframe := (curframe e1)\<lparr>pc := handlerPc xp\<rparr>,
                                  curexcep := VStr msg\<rparr>) of
                None \<Rightarrow> None
              | Some e2 \<Rightarrow> Some ((handlerPc xp, prog (curframe e), bt, True), e2))
         | None \<Rightarrow>
             (case prevfuncframe e of None \<Rightarrow> None | Some pframe \<Rightarrow>
              case popfuncframe pframe e of None \<Rightarrow> None | Some (_, e1) \<Rightarrow>
              unwind_loop breaker err (if \<not> isTop pframe then bt @ [pframe] else bt) e1)))"

definition unwindForExcep ::
  "(evaluator \<Rightarrow> bool) \<Rightarrow> error option \<Rightarrow> evaluator \<Rightarrow>
   ((int \<times> program option \<times> funcframe list \<times> bool) \<times> evaluator) option" where
  "unwindForExcep breaker err e = unwind_loop breaker err [curframe e] e"

text \<open>
  \<^verbatim>\<open>doErr\<close> formats the report of an error that no handler caught; reading the message
  of no error is a panic.
\<close>

definition doErr :: "lib \<Rightarrow> funcframe list \<Rightarrow> program option \<Rightarrow> int \<Rightarrow> error option \<Rightarrow> error option" where
  "doErr L bt p n err =
     (case err of
        None \<Rightarrow> None
      | Some msg \<Rightarrow>
          (case p of
             Some q \<Rightarrow>
               Some (''symbol('' @ name q @ ''), '' @ dbgWhere L q n @ '' has error: '' @ msg
                     @ [CHR 0x0A] @ backtrace L bt)
           | None \<Rightarrow> Some (''symbol([native function]): '' @ msg)))"

subsection \<open>Rules\<close>

text \<open>
  The part of \<^verbatim>\<open>runRuleImpl\<close> from the label \<^verbatim>\<open>RECOVER\<close> on: run the interpreter, and
  after an error that a handler caught run it again from the handler. The result is the
  value, the error and whether the rule ended in \<^verbatim>\<open>nextRule\<close>.
\<close>

partial_function (option) runRule_recover ::
  "lib \<Rightarrow> program \<Rightarrow> int \<Rightarrow> evaluator \<Rightarrow> ((val \<times> error option \<times> bool) \<times> evaluator) option" where
  "runRule_recover L p n e =
     (case runP L p n e of
        None \<Rightarrow> None
      | Some (rr, e1) \<Rightarrow>
          if isDone rr then
            (case top0 e1 of None \<Rightarrow> None | Some ret \<Rightarrow>
             case pop e1 of None \<Rightarrow> None | Some e2 \<Rightarrow> Some ((ret, None, False), e2))
          else if isNextRule rr then Some ((VNull, None, True), e1)
          else
            (case unwindForExcep (\<lambda>e'. isTop (curframe e')) (rr_e rr) e1 of
               None \<Rightarrow> None
             | Some ((a, b, c, d), e2) \<Rightarrow>
                 if d then
                   (case b of None \<Rightarrow> None | Some q \<Rightarrow> runRule_recover L q a e2)
                 else
                   (case doErr L c (rr_prog rr) (rr_pc rr) (rr_e rr) of
                      None \<Rightarrow> None
                    | Some report \<Rightarrow> Some ((VNull, Some report, False), e2))))"

definition runRuleImpl ::
  "lib \<Rightarrow> val \<Rightarrow> program \<Rightarrow> evaluator \<Rightarrow> ((val \<times> error option \<times> bool) \<times> evaluator) option" where
  "runRuleImpl L ev p e =
     (if Context e = None then None
      else
        (let e1 = clearStack e;
             e2 = e1\<lparr>curexcep := VNull\<rparr>;
             e3 = e2\<lparr>curframe := markTop\<rparr>;
             e4 = push VNull e3;
             e5 = push ev e4;
             e6 = prologue FtypeRule 1 (Some p) None e5
         in runRule_recover L p 0 e6))"

definition runRule ::
  "lib \<Rightarrow> val \<Rightarrow> program \<Rightarrow> evaluator \<Rightarrow> ((val \<times> error option) \<times> evaluator) option" where
  "runRule L ev p e =
     (case runRuleImpl L ev p e of
        None \<Rightarrow> None
      | Some ((v, err, _), e') \<Rightarrow> Some ((v, err), e'))"

fun runRuleList ::
  "lib \<Rightarrow> val \<Rightarrow> program list \<Rightarrow> evaluator \<Rightarrow> ((val \<times> error option) \<times> evaluator) option" where
  "runRuleList L ev [] e = Some ((VNull, None), e)"
| "runRuleList L ev (p # progList) e =
     (case runRuleImpl L ev p e of
        None \<Rightarrow> None
      | Some ((v, err, nxt), e') \<Rightarrow>
          if nxt then runRuleList L ev progList e' else Some ((v, err), e'))"

subsection \<open>Modules and their entry points\<close>

text \<open>
  Modelled from the spec: the \<^verbatim>\<open>Module\<close>, whose file is not under \<^verbatim>\<open>src/\<close>: an
  optional config program, the session and global programs, the global values, and the
  rules by event name, each name with its rules in registration order.
\<close>

record module =
  config :: "program option"
  session :: "program list"
  globalProgram :: "program list"
  globalVar :: "val list"
  eventMap :: "(string \<times> program list) list"

definition HasConfig :: "module \<Rightarrow> bool" where
  "HasConfig m = (config m \<noteq> None)"

definition HasGlobal :: "module \<Rightarrow> bool" where
  "HasGlobal m = (globalProgram m \<noteq> [])"

definition HasSession :: "module \<Rightarrow> bool" where
  "HasSession m = (session m \<noteq> [])"

definition findEvent :: "module \<Rightarrow> string \<Rightarrow> program list option" where
  "findEvent m ev = map_of (eventMap m) ev"

definition EvalDeferred ::
  "lib \<Rightarrow> string \<Rightarrow> val \<Rightarrow> module \<Rightarrow> evaluator \<Rightarrow> ((val \<times> error option) \<times> evaluator) option" where
  "EvalDeferred L nm ctx m e =
     (case findEvent m nm of
        Some plist \<Rightarrow> runRuleList L ctx plist e
      | None \<Rightarrow> Some ((VNull, None), e))"

text \<open>
  The callback that \<^verbatim>\<open>drainEventQueue\<close> hands to the queue: it stores the answer of
  the host in the variable \<open>status\<close> and lets the draining go on when the status is
  \<open>EventContextContinue\<close>.
\<close>

definition drain_callback :: "evaluator \<Rightarrow> int \<Rightarrow> string \<Rightarrow> error \<Rightarrow> bool \<times> int" where
  "drain_callback e status nm err =
     (let status' = (case Event e of Some onEventError \<Rightarrow> onEventError nm err | None \<Rightarrow> status)
      in (status' = EventContextContinue, status'))"

partial_function (option) Drain :: "lib \<Rightarrow> module \<Rightarrow> int \<Rightarrow> evaluator \<Rightarrow> (int \<times> evaluator) option" where
  "Drain L m status e =
     (case eventQ e of
        [] \<Rightarrow> Some (status, e)
      | (nm, ctx) # rest \<Rightarrow>
          (case EvalDeferred L nm ctx m (e\<lparr>eventQ := rest\<rparr>) of
             None \<Rightarrow> None
           | Some ((_, None), e1) \<Rightarrow> Drain L m status e1
           | Some ((_, Some err), e1) \<Rightarrow>
               (case drain_callback e1 status nm err of
                  (goOn, status') \<Rightarrow>
                    if goOn then Drain L m status' e1 else Some (status', e1))))"

definition Clear :: "evaluator \<Rightarrow> evaluator" where
  "Clear e = e\<lparr>eventQ := []\<rparr>"

definition drainEventQueue :: "lib \<Rightarrow> module \<Rightarrow> evaluator \<Rightarrow> evaluator option" where
  "drainEventQueue L m e =
     (if inEventQueue e then Some e
      else
        (case Drain L m 0 (e\<lparr>inEventQueue := True\<rparr>) of
           None \<Rightarrow> None
         | Some (status, e1) \<Rightarrow>
             Some ((if status = EventContextStopAndClear then Clear e1 else e1)
                     \<lparr>inEventQueue := False\<rparr>)))"

definition EvalConfig :: "lib \<Rightarrow> module \<Rightarrow> evaluator \<Rightarrow> (error option \<times> evaluator) option" where
  "EvalConfig L m e =
     (case config m of
        None \<Rightarrow> Some (None, e)
      | Some p \<Rightarrow>
          if Config e = None then Some (Some ''evaluator's Config is not set'', e)
          else
            (case runRule L VNull p e of
               None \<Rightarrow> None
             | Some ((_, err), e') \<Rightarrow> Some (err, e')))"

text \<open>The loop of \<^verbatim>\<open>EvalGlobal\<close> and \<^verbatim>\<open>EvalSession\<close>: it stops at the first error.\<close>

fun runRules :: "lib \<Rightarrow> program list \<Rightarrow> evaluator \<Rightarrow> (error option \<times> evaluator) option" where
  "runRules L [] e = Some (None, e)"
| "runRules L (p # ps) e =
     (case runRule L VNull p e of
        None \<Rightarrow> None
      | Some ((_, Some err), e') \<Rightarrow> Some (Some err, e')
      | Some ((_, None), e') \<Rightarrow> runRules L ps e')"

text \<open>
  The entry points that defer \<^verbatim>\<open>drainEventQueue\<close>: the deferred call runs on every
  return of the function, after its result is set.
\<close>

definition EvalGlobal ::
  "lib \<Rightarrow> module \<Rightarrow> evaluator \<Rightarrow> (error option \<times> evaluator \<times> module) option" where
  "EvalGlobal L m e =
     (if \<not> HasGlobal m then
        (case drainEventQueue L m e of None \<Rightarrow> None | Some e' \<Rightarrow> Some (None, e', m))
      else
        (let m1 = m\<lparr>globalVar := []\<rparr> in
         case runRules L (globalProgram m1) e of
           None \<Rightarrow> None
         | Some (err, e1) \<Rightarrow>
             (case drainEventQueue L m1 e1 of None \<Rightarrow> None | Some e' \<Rightarrow> Some (err, e', m1))))"

definition EvalSession :: "lib \<Rightarrow> module \<Rightarrow> evaluator \<Rightarrow> (error option \<times> evaluator) option" where
  "EvalSession L m e =
     (if \<not> HasSession m then
        (case drainEventQueue L m e of None \<Rightarrow> None | Some e' \<Rightarrow> Some (None, e'))
      else
        (case runRules L (session m) (e\<lparr>Session := []\<rparr>) of
           None \<Rightarrow> None
         | Some (err, e1) \<Rightarrow>
             (case drainEventQueue L m e1 of None \<Rightarrow> None | Some e' \<Rightarrow> Some (err, e'))))"

definition EvalWithContext ::
  "lib \<Rightarrow> string \<Rightarrow> val \<Rightarrow> module \<Rightarrow> evaluator \<Rightarrow> ((val \<times> error option) \<times> evaluator) option" where
  "EvalWithContext L ev ctx m e =
     (case (case findEvent m ev of
              Some plist \<Rightarrow> runRuleList L ctx plist e
            | None \<Rightarrow> Some ((VNull, None), e)) of
        None \<Rightarrow> None
      | Some (r, e1) \<Rightarrow>
          (case drainEventQueue L m e1 of None \<Rightarrow> None | Some e' \<Rightarrow> Some (r, e')))"

definition Eval ::
  "lib \<Rightarrow> string \<Rightarrow> module \<Rightarrow> evaluator \<Rightarrow> ((val \<times> error option) \<times> evaluator) option" where
  "Eval L ev m e =
     (case (case findEvent m ev of
              Some plist \<Rightarrow> runRuleList L VNull plist e
            | None \<Rightarrow> Some ((VNull, None), e)) of
        None \<Rightarrow> None
      | Some (r, e1) \<Rightarrow>
          (case drainEventQueue L m e1 of None \<Rightarrow> None | Some e' \<Rightarrow> Some (r, e')))"

text \<open>A fresh evaluator as \<^verbatim>\<open>NewEvaluator\<close> makes it, with a context and a config.\<close>

definition NewEvaluator :: evaluator where
  "NewEvaluator = \<lparr>Stack = [], Session = [], Context = Some (), Config = Some (), Event = None,
                    curframe = markTop, curexcep = VNull, eventQ = [], inEventQueue = False\<rparr>"

subsection \<open>Rule chains\<close>

text \<open>
  The rules of a list, run in order, each from the state the one before it left, all
  ended in \<^verbatim>\<open>nextRule\<close>: the state that the last of them left.
\<close>

fun chain_nextRule :: "lib \<Rightarrow> val \<Rightarrow> program list \<Rightarrow> evaluator \<Rightarrow> evaluator option" where
  "chain_nextRule L ev [] e = Some e"
| "chain_nextRule L ev (p # ps) e =
     (case runRuleImpl L ev p e of
        Some ((v, err, True), e') \<Rightarrow> chain_nextRule L ev ps e'
      | _ \<Rightarrow> None)"

subsection \<open>Programs for examples\<close>

definition mk_rule :: "string \<Rightarrow> (opcode \<times> int) list \<Rightarrow> int64 list \<Rightarrow> string list \<Rightarrow> program" where
  "mk_rule nm code ints strs =
     \<lparr>name = nm, progtype = ProgRule,
      bcList = map (\<lambda>(c, a). \<lparr>opcode = c, argument = a\<rparr>) code,
      intPool = ints, realPool = [], strPool = strs\<rparr>"

text \<open>\<^verbatim>\<open>try { 1 / 0 } catch e { return e }\<close>\<close>

definition try_prog :: program where
  "try_prog = mk_rule ''try'' [(BcPushException, 5), (BcLoadInt, 0), (BcLoadInt, 1), (BcDiv, 0),
                              (BcPopException, 7), (BcLoadException, 0), (BcReturn, 0),
                              (BcHalt, 0)] [1, 0] []"

text \<open>The state in which \<^verbatim>\<open>runRuleImpl\<close> enters the interpreter for a rule and an event.\<close>

definition rule_entry :: "evaluator \<Rightarrow> program \<Rightarrow> val \<Rightarrow> evaluator" where
  "rule_entry e p ev =
     e\<lparr>Stack := [VNull, ev,
                  VFrame \<lparr>ftype = FtypeTop, farg = 0, pc = 1, framep = 0, prog = None, excep = [],
                          closure = None\<rparr>],
       curexcep := VNull,
       curframe := \<lparr>ftype = FtypeRule, farg = 1, pc = 0, framep = 0, prog = Some p, excep = [],
                     closure = None\<rparr>\<rparr>"

text \<open>A rule that passes on, a rule that returns 7, a rule that halts.\<close>

definition next_prog :: program where
  "next_prog = mk_rule ''A'' [(BcNextRule, 0)] [] []"

definition seven_prog :: program where
  "seven_prog = mk_rule ''B'' [(BcLoadInt, 0), (BcReturn, 0)] [7] []"

definition halt_prog :: program where
  "halt_prog = mk_rule ''C'' [(BcHalt, 0)] [] []"

text \<open>A rule that emits the event \<open>child\<close> with a null context, and a module around it.\<close>

definition emit_prog :: program where
  "emit_prog = mk_rule ''emitter'' [(BcLoadStr, 0), (BcLoadNull, 0), (BcEmit, 0), (BcHalt, 0)]
                 [] [''child'']"

definition emit_module :: module where
  "emit_module = \<lparr>config = Some emit_prog, session = [emit_prog], globalProgram = [emit_prog],
                   globalVar = [],
                   eventMap = [(''e'', [emit_prog]), (''child'', [halt_prog])]\<rparr>"

text \<open>\<open>true and ...\<close> and \<open>false and ...\<close>: the instruction \<^verbatim>\<open>and 2\<close> under a bool.\<close>

definition and_prog :: program where
  "and_prog = mk_rule ''and'' [(BcAnd, 2), (BcHalt, 0), (BcHalt, 0)] [] []"

text \<open>
  States that the examples reach: after a rule returned from its frame, after
  \<open>emit_prog\<close> ran as a rule with a null event, and after the queue was drained of the
  event \<open>child\<close>.
\<close>

definition after_return :: "evaluator \<Rightarrow> evaluator" where
  "after_return e =
     e\<lparr>Stack := [], curexcep := VNull,
       curframe := \<lparr>ftype = FtypeTop, farg = 0, pc = 1, framep = 0, prog = None, excep = [],
                     closure = None\<rparr>\<rparr>"

definition after_emit :: "evaluator \<Rightarrow> evaluator" where
  "after_emit e = (rule_entry e emit_prog VNull)\<lparr>eventQ := eventQ e @ [(''child'', VNull)]\<rparr>"

definition after_drain :: "evaluator \<Rightarrow> evaluator" where
  "after_drain e = (rule_entry e halt_prog VNull)\<lparr>eventQ := [], inEventQueue := False\<rparr>"

section \<open>The integer power operator\<close>

lemma sle_MaxInt64: "(i::int64) \<le>s 0x7FFFFFFFFFFFFFFF"
  unfolding word_sle_eq using sint_lt [of i] by simp

lemma sint_succ_below:
  assumes "(i::int64) \<le>s m" and "sint m < 2 ^ 63 - 1"
  shows "sint (i + 1) = sint i + 1"
proof -
  have "sint i \<le> sint m"
    using assms(1) by (simp add: word_sle_eq)
  moreover have "- (2 ^ 63) \<le> sint i"
    using sint_ge [of i] by simp
  ultimately have "signed_take_bit 63 (sint i + 1) = sint i + 1"
    using assms(2) by (intro signed_take_bit_int_eq_self) auto
  then show ?thesis
    by (simp add: sint_word_ariths)
qed

text \<open>Below the largest exponent the loop ends, having multiplied once per round.\<close>

lemma powI_loop_returns:
  "sint i \<le> sint m + 1 \<Longrightarrow> sint m < 2 ^ 63 - 1 \<Longrightarrow> k = nat (sint m + 1 - sint i) \<Longrightarrow>
   powI_loop n m i r = Some (r * n ^ k)"
proof (induction k arbitrary: i r)
  case 0
  then have "\<not> i \<le>s m"
    by (simp add: word_sle_eq)
  then show ?case
    by (subst powI_loop.simps) simp
next
  case (Suc k)
  then have le: "i \<le>s m"
    by (simp add: word_sle_eq)
  have s: "sint (i + 1) = sint i + 1"
    using sint_succ_below [OF le Suc.prems(2)] .
  have "powI_loop n m (i + 1) (r * n) = Some (r * n * n ^ k)"
    using Suc.prems s by (intro Suc.IH) auto
  then show ?case
    using le by (subst powI_loop.simps) (simp add: mult.assoc)
qed

lemma powI_zero: "powI n 0 = Some 1"
  by (simp add: powI_def)

lemma powI_pos:
  assumes "1 \<le> sint m" and "sint m < 2 ^ 63 - 1"
  shows "powI n m = Some (n ^ nat (sint m))"
proof -
  have m0: "m \<noteq> 0"
    using assms(1) by auto
  have "powI_loop n m 2 n = Some (n * n ^ nat (sint m + 1 - sint (2::int64)))"
    using assms by (intro powI_loop_returns) auto
  moreover have "nat (sint m + 1 - sint (2::int64)) = nat (sint m) - 1"
    by simp
  moreover have "n * n ^ (nat (sint m) - 1) = n ^ nat (sint m)"
    using assms(1) by (cases "nat (sint m)") auto
  ultimately show ?thesis
    using m0 by (simp add: powI_def)
qed

lemma powI_neg:
  assumes "sint m < 0"
  shows "powI n m = Some n"
proof -
  have "m \<noteq> 0"
    using assms by auto
  moreover have "\<not> (2::int64) \<le>s m"
    using assms by (simp add: word_sle_eq)
  ultimately show ?thesis
    by (simp add: powI_def powI_loop.simps [of n m 2 n])
qed

text \<open>
  With the largest exponent the test \<^verbatim>\<open>i <= m\<close> holds for every counter, so no
  round of the loop is the last one.
\<close>

lemma powI_loop_MaxInt64:
  assumes "powI_loop n m i r = Some y"
  shows "m \<noteq> 0x7FFFFFFFFFFFFFFF"
proof (rule powI_loop.raw_induct [where P = "\<lambda>n m i r y. m \<noteq> 0x7FFFFFFFFFFFFFFF", OF _ assms])
  fix f :: "int64 \<Rightarrow> int64 \<Rightarrow> int64 \<Rightarrow> int64 \<Rightarrow> int64 option" and n m i r y
  assume IH: "\<And>n m i r y. f n m i r = Some y \<Longrightarrow> m \<noteq> 0x7FFFFFFFFFFFFFFF"
    and eq: "(if i \<le>s m then f n m (i + 1) (r * n) else Some r) = Some y"
  show "m \<noteq> 0x7FFFFFFFFFFFFFFF"
  proof
    assume m: "m = 0x7FFFFFFFFFFFFFFF"
    then have "i \<le>s m"
      using sle_MaxInt64 [of i] by simp
    with eq have "f n m (i + 1) (r * n) = Some y"
      by simp
    from IH [OF this] m show False
      by simp
  qed
qed

lemma powI_MaxInt64: "powI n 0x7FFFFFFFFFFFFFFF = None"
proof (cases "powI n 0x7FFFFFFFFFFFFFFF")
  case None
  then show ?thesis .
next
  case (Some y)
  then have "powI_loop n 0x7FFFFFFFFFFFFFFF 2 n = Some y"
    by (simp add: powI_def)
  from powI_loop_MaxInt64 [OF this] show ?thesis
    by simp
qed

text \<open>
  Claim C10. For int operands \<^verbatim>\<open>**\<close> is repeated multiplication and never raises an
  error: \<open>n ** 0 = 1\<close>, \<open>n ** m\<close> is the \<open>m\<close>-fold product for \<open>m \<ge> 1\<close>, and a
  negative \<open>m\<close> gives \<open>n\<close>. The code does so for every exponent but one
  (\<open>powI_zero\<close>, \<open>powI_pos\<close>, \<open>powI_neg\<close>); at the exponent \<open>2^63 - 1\<close> the counter
  of the loop wraps around and the operator never returns, for any base.
\<close>

theorem pow_int_MaxInt64_never_returns:
  "doBin L (VInt n) (VInt 0x7FFFFFFFFFFFFFFF) BcPow = None"
  by (simp add: powI_MaxInt64)

section \<open>Division and modulo\<close>

lemma doBin_mod_only_int:
  "doBin L lhs rhs BcMod = Some (Inr v) \<Longrightarrow> Type lhs = ValInt \<and> Type rhs = ValInt"
  by (auto split: if_splits)

text \<open>
  Claim C6, as stated, fails: it has a division by a zero divisor fail for every numeric
  kind, and the quotient of two reals with a zero divisor is returned as a value.
\<close>

theorem div_zero_counterexample:
  "doBin example_lib (VReal (Finite 1)) (VReal (Finite 0)) BcDiv = Some (Inr (VReal PosInf))"
  by (simp add: f64_div_def f64_inf_def f64_sign_def)

text \<open>
  Claim C6, amended. Modulo yields a value on two int operands only; an int division or
  modulo by the int zero fails with the error \<open>divide zero\<close> for every dividend;
  a division of a real by a zero real, or of mixed operands by zero, does not fail: it
  yields the real quotient of the two operands.
\<close>

theorem div_mod_zero:
  "(doBin L lhs rhs BcMod = Some (Inr v) \<longrightarrow> Type lhs = ValInt \<and> Type rhs = ValInt)
   \<and> doBin L (VInt a) (VInt 0) BcDiv = Some (Inl ''divide zero'')
   \<and> doBin L (VInt a) (VInt 0) BcMod = Some (Inl ''divide zero'')
   \<and> doBin L (VReal x) (VReal (Finite 0)) BcDiv = Some (Inr (VReal (f64_div x (Finite 0))))
   \<and> doBin L (VInt a) (VReal (Finite 0)) BcDiv = Some (Inr (VReal (f64_div (f64_of_int64 a) (Finite 0))))
   \<and> doBin L (VReal x) (VInt 0) BcDiv = Some (Inr (VReal (f64_div x (Finite 0))))"
  by (auto simp: IsNumber_def mustReal_def f64_of_int64_def split: if_splits)

theorem div_mod_zero_witness:
  "doBin example_lib (VInt 7) (VInt 2) BcMod = Some (Inr (VInt 1))
   \<and> Type (VInt 7) = ValInt \<and> Type (VInt 2) = ValInt
   \<and> doBin example_lib (VInt 7) (VInt 0) BcDiv = Some (Inl ''divide zero'')
   \<and> doBin example_lib (VInt 7) (VInt 0) BcMod = Some (Inl ''divide zero'')
   \<and> doBin example_lib (VReal (Finite 7)) (VReal (Finite 0)) BcDiv = Some (Inr (VReal PosInf))"
proof -
  have m: "doBin example_lib (VInt 7) (VInt 2) BcMod = Some (Inr (VInt 1))"
    by (simp add: int64_mod_def signed_modulo_int_def)
  have d: "f64_div (Finite 7) (Finite 0) = PosInf"
    by (simp add: f64_div_def f64_inf_def f64_sign_def)
  show ?thesis
    using div_mod_zero [of example_lib "VInt 7" "VInt 2" "VInt 1" 7 "Finite 7"] m d
    by simp
qed

section \<open>Kinds of arithmetic results\<close>





section \<open>Access to pairs\<close>

lemma iterate_NewIter:
  "iterate (NewIter q) = Inr [(VInt 0, First q), (VInt 1, Second q)]"
proof -
  have 2: "iterate \<lparr>iter_p = q, cnt = 2\<rparr> = Inr []"
    by (subst iterate.simps) (simp add: Has_def)
  have 1: "iterate \<lparr>iter_p = q, cnt = 1\<rparr> = Inr [(VInt 1, Second q)]"
    by (subst iterate.simps) (simp add: Has_def Deref_def Next_def 2)
  show ?thesis
    unfolding NewIter_def
    by (subst iterate.simps) (simp add: Has_def Deref_def Next_def 1)
qed

lemma Index_other:
  "ToIndex idx \<noteq> Inr 0 \<Longrightarrow> ToIndex idx \<noteq> Inr 1 \<Longrightarrow> isl (Index q idx)"
  by (cases "ToIndex idx") (simp_all add: Index_def)

lemma IndexSet_other:
  "ToIndex idx \<noteq> Inr 0 \<Longrightarrow> ToIndex idx \<noteq> Inr 1 \<Longrightarrow> isl (IndexSet q idx v)"
  by (cases "ToIndex idx") (simp_all add: IndexSet_def)

lemma Dot_other:
  "nm \<noteq> ''first'' \<Longrightarrow> nm \<noteq> ''second'' \<Longrightarrow> isl (Dot q nm) \<and> isl (DotSet q nm v)"
  unfolding Dot_def DotSet_def by (simp only: if_False sum.disc simp_thms)

lemma Index_01:
  "Index q (VInt 0) = Inr (First q)" "Index q (VInt 1) = Inr (Second q)"
  "IndexSet q (VInt 0) v = Inr (Pair v (Second q))"
  "IndexSet q (VInt 1) v = Inr (Pair (First q) v)"
  by (simp_all add: Index_def IndexSet_def ToIndex_def)

lemma Dot_names:
  "Dot q ''first'' = Inr (First q)" "Dot q ''second'' = Inr (Second q)"
  "DotSet q ''first'' v = Inr (Pair v (Second q))"
  "DotSet q ''second'' v = Inr (Pair (First q) v)"
  by (simp_all add: Dot_def DotSet_def)

text \<open>
  Claim C8. Indexing a pair by \<open>0\<close> gives its first slot and by \<open>1\<close> its second, and
  every other index is an error; the names \<open>first\<close> and \<open>second\<close> read the same slots
  and every other name is an error; index-set and dot-set accept the same keys and names
  and write the slot; iterating the pair reads \<open>(0, first)\<close>, then \<open>(1, second)\<close>, and
  stops.
\<close>

theorem pair_access:
  "Index q (VInt 0) = Inr (First q)
   \<and> Index q (VInt 1) = Inr (Second q)
   \<and> (ToIndex idx \<noteq> Inr 0 \<and> ToIndex idx \<noteq> Inr 1 \<longrightarrow> isl (Index q idx) \<and> isl (IndexSet q idx v))
   \<and> Dot q ''first'' = Inr (First q)
   \<and> Dot q ''second'' = Inr (Second q)
   \<and> (nm \<noteq> ''first'' \<and> nm \<noteq> ''second'' \<longrightarrow> isl (Dot q nm) \<and> isl (DotSet q nm v))
   \<and> IndexSet q (VInt 0) v = Inr (Pair v (Second q))
   \<and> IndexSet q (VInt 1) v = Inr (Pair (First q) v)
   \<and> DotSet q ''first'' v = Inr (Pair v (Second q))
   \<and> DotSet q ''second'' v = Inr (Pair (First q) v)
   \<and> iterate (NewIter q) = Inr [(VInt 0, First q), (VInt 1, Second q)]"
  using Index_other [of idx q] IndexSet_other [of idx q v] Dot_other [of nm q v]
  by (simp only: Index_01 Dot_names iterate_NewIter simp_thms) blast

theorem pair_access_witness:
  "ToIndex (VInt 2) \<noteq> Inr 0 \<and> ToIndex (VInt 2) \<noteq> Inr 1
   \<and> ''third'' \<noteq> ''first'' \<and> ''third'' \<noteq> ''second''
   \<and> Index (Pair (VInt 10) (VStr ''b'')) (VInt 0) = Inr (VInt 10)
   \<and> Index (Pair (VInt 10) (VStr ''b'')) (VInt 1) = Inr (VStr ''b'')
   \<and> isl (Index (Pair (VInt 10) (VStr ''b'')) (VInt 2))
   \<and> isl (Dot (Pair (VInt 10) (VStr ''b'')) ''third'')
   \<and> iterate (NewIter (Pair (VInt 10) (VStr ''b''))) = Inr [(VInt 0, VInt 10), (VInt 1, VStr ''b'')]"
proof -
  have a: "ToIndex (VInt 2) \<noteq> Inr 0 \<and> ToIndex (VInt 2) \<noteq> Inr 1"
    by (simp add: ToIndex_def)
  have b: "''third'' \<noteq> ''first'' \<and> ''third'' \<noteq> ''second''"
    by simp
  have c: "First (Pair (VInt 10) (VStr ''b'')) = VInt 10" "Second (Pair (VInt 10) (VStr ''b'')) = VStr ''b''"
    by simp_all
  show ?thesis
    using pair_access [of "Pair (VInt 10) (VStr ''b'')" "VInt 2" VNull "''third''"] a b
    unfolding c by blast
qed

section \<open>Aggregation and selection\<close>

lemma qSum_1234: "qSum [VList [VInt 1, VInt 2, VInt 3, VInt 4]] = Some (Inr (VInt 10))"
  by (simp add: qSum_def Check_list_def qagg_def firstNum_def qSum_joiner_def qaggret_def)

lemma qMax_1234: "qMax [VList [VInt 1, VInt 2, VInt 3, VInt 4]] = Some (Inr (VInt 4))"
  by (simp add: qMax_def Check_list_def qagg_def firstNum_def qMax_joiner_def qaggret_def word_sless_alt)

lemma qMax_empty: "qMax [VList []] = Some (Inr VNull)"
  by (simp add: qMax_def Check_list_def qagg_def firstNum_def qaggret_def)

lemma qCount_1234: "qCount [VList [VInt 1, VInt 2, VInt 3, VInt 4]] = Some (Inr (VInt 4))"
  by (simp add: qCount_def Check_list_def qagg_def firstNum_def qCount_joiner_def)

text \<open>
  Claim C5. On the list \<open>[1, 2, 3, 4]\<close> the sum is the int \<open>10\<close>, the maximum the int
  \<open>4\<close>, and the maximum of the empty list is null (\<open>qSum_1234\<close>, \<open>qMax_1234\<close>,
  \<open>qMax_empty\<close>); the average is to be the real \<open>2.5\<close>. The code returns the real
  \<open>3\<close>: \<^verbatim>\<open>qagg\<close> takes the first number as the start value and hands only the later
  elements to the joiner, so \<^verbatim>\<open>qAvg\<close> divides \<open>2 + 3 + 4\<close> by \<open>3\<close>.
\<close>

theorem qAvg_1234:
  "qAvg [VList [VInt 1, VInt 2, VInt 3, VInt 4]] = Some (Inr (VReal (Finite 3)))"
  by (simp add: qAvg_def Check_list_def qagg_def firstNum_def qAvg_joiner_def
      f64_div_def f64_of_int64_def f64_of_int_def)

text \<open>
  Claim C9. \<^verbatim>\<open>q::select\<close> is to skip every selector outside \<open>0..len-1\<close> and never
  to fault. The guard of the code lets the selector \<open>len\<close> through, and the read at that
  index is out of range: selecting index \<open>1\<close> of a list of one element panics. With no
  selector equal to the length the code returns the elements selected, in argument order
  (\<open>qSelect_list_in_range\<close>).
\<close>

theorem qSelect_at_length:
  "qSelect [VList [VInt 1], VInt 1] = None"
  by (simp add: qSelect_def Check_select_def slice_at_def)

lemma qSelect_list_in_range:
  assumes "\<forall>v \<in> set vs. sint (Int_val v) \<noteq> int (length l)"
  shows "qSelect_list l vs out =
         Some (out @ map (\<lambda>v. l ! nat (sint (Int_val v)))
                 (filter (\<lambda>v. 0 \<le> sint (Int_val v) \<and> sint (Int_val v) < int (length l)) vs))"
  using assms
proof (induction vs arbitrary: out)
  case Nil
  then show ?case by simp
next
  case (Cons v vs)
  then show ?case
    by (auto simp: Let_def slice_at_def)
qed

section \<open>The short-circuit instructions\<close>

lemma nat_int_pred: "nat (int k - 1) = k - Suc 0"
  by arith

lemma top0_last: "Stack e \<noteq> [] \<Longrightarrow> top0 e = Some (last (Stack e))"
  by (simp add: top0_def topN_def slice_at_def last_conv_nth nat_int_pred)

lemma top0_SomeD: "top0 e = Some v \<Longrightarrow> Stack e \<noteq> [] \<and> v = last (Stack e)"
  by (auto simp: top0_def topN_def slice_at_def last_conv_nth nat_int_pred split: if_splits)

lemma pop_butlast: "Stack e \<noteq> [] \<Longrightarrow> pop e = Some (e\<lparr>Stack := butlast (Stack e)\<rparr>)"
  by (cases "Stack e" rule: rev_cases) (simp_all add: pop_def popN_def)

lemma step_And:
  assumes "opcode bc = BcAnd" and "top0 e = Some v"
  shows "step L p n bc e =
           (if ToBoolean L v then Some (Continue p n (e\<lparr>Stack := butlast (Stack e)\<rparr>))
            else Some (Continue p (argument bc - 1) e))"
  using assms top0_SomeD [OF assms(2)] by (simp add: step_def pop_butlast)

lemma step_Or:
  assumes "opcode bc = BcOr" and "top0 e = Some v"
  shows "step L p n bc e =
           (if ToBoolean L v then Some (Continue p (argument bc - 1) e)
            else Some (Continue p n (e\<lparr>Stack := butlast (Stack e)\<rparr>)))"
  using assms top0_SomeD [OF assms(2)] by (simp add: step_def pop_butlast)

text \<open>
  Claim C3, as stated, fails: it has \<^verbatim>\<open>and pc\<close> keep a truthy top of stack and jump.
  Under a true top of stack the instruction \<^verbatim>\<open>and 2\<close> pops it and falls through (the
  counter stays at the instruction, and the loop goes on at the next one).
\<close>

theorem and_counterexample:
  "step example_lib and_prog 0 \<lparr>opcode = BcAnd, argument = 2\<rparr> (NewEvaluator\<lparr>Stack := [VBool True]\<rparr>)
   = Some (Continue and_prog 0 (NewEvaluator\<lparr>Stack := []\<rparr>))"
  by (simp add: step_def top0_def topN_def slice_at_def pop_def popN_def example_lib_def NewEvaluator_def)

text \<open>
  Claim C3, amended. \<^verbatim>\<open>and pc\<close>: if the top of stack is falsy, keep it on the stack
  and go on at \<open>pc\<close>; otherwise pop it and go on at the next instruction. \<^verbatim>\<open>or pc\<close>
  mirrors this: if the top of stack is truthy, keep it and go on at \<open>pc\<close>; otherwise pop
  it and go on at the next instruction.
\<close>

theorem and_or_short_circuit:
  assumes "slice_at (bcList p) n = Some bc" and "top0 e = Some v"
  shows "(opcode bc = BcAnd \<longrightarrow>
            runP L p n e = (if ToBoolean L v then runP L p (n + 1) (e\<lparr>Stack := butlast (Stack e)\<rparr>)
                            else runP L p (argument bc) e))
       \<and> (opcode bc = BcOr \<longrightarrow>
            runP L p n e = (if ToBoolean L v then runP L p (argument bc) e
                            else runP L p (n + 1) (e\<lparr>Stack := butlast (Stack e)\<rparr>)))"
proof (intro conjI impI)
  assume a: "opcode bc = BcAnd"
  show "runP L p n e = (if ToBoolean L v then runP L p (n + 1) (e\<lparr>Stack := butlast (Stack e)\<rparr>)
                            else runP L p (argument bc) e)"
    by (subst runP.simps) (simp add: assms step_And [OF a assms(2)])
next
  assume a: "opcode bc = BcOr"
  show "runP L p n e = (if ToBoolean L v then runP L p (argument bc) e
                            else runP L p (n + 1) (e\<lparr>Stack := butlast (Stack e)\<rparr>))"
    by (subst runP.simps) (simp add: assms step_Or [OF a assms(2)])
qed

lemma bcList_and_prog:
  "bcList and_prog = [\<lparr>opcode = BcAnd, argument = 2\<rparr>, \<lparr>opcode = BcHalt, argument = 0\<rparr>,
                      \<lparr>opcode = BcHalt, argument = 0\<rparr>]"
  by (simp add: and_prog_def mk_rule_def)

theorem and_or_short_circuit_witness:
  "slice_at (bcList and_prog) 0 = Some \<lparr>opcode = BcAnd, argument = 2\<rparr>
   \<and> top0 (NewEvaluator\<lparr>Stack := [VBool False]\<rparr>) = Some (VBool False)
   \<and> opcode \<lparr>opcode = BcAnd, argument = 2\<rparr> = BcAnd
   \<and> \<not> ToBoolean example_lib (VBool False)
   \<and> runP example_lib and_prog 0 (NewEvaluator\<lparr>Stack := [VBool False]\<rparr>)
       = runP example_lib and_prog 2 (NewEvaluator\<lparr>Stack := [VBool False]\<rparr>)"
proof -
  have h1: "slice_at (bcList and_prog) 0 = Some \<lparr>opcode = BcAnd, argument = 2\<rparr>"
    by (simp add: bcList_and_prog slice_at_def)
  have h2: "top0 (NewEvaluator\<lparr>Stack := [VBool False]\<rparr>) = Some (VBool False)"
    by (simp add: top0_def topN_def slice_at_def)
  have h3: "\<not> ToBoolean example_lib (VBool False)"
    by (simp add: example_lib_def)
  show ?thesis
    using and_or_short_circuit [OF h1 h2, of example_lib] h1 h2 h3 by simp
qed

section \<open>Exception recovery\<close>

lemma step_PushException:
  "opcode bc = BcPushException \<Longrightarrow>
   step L p n bc e = Some (Continue p n (pushExcep (argument bc) (stackSize_of e) e))"
  by (simp add: step_def)

text \<open>
  Claim C2. Let \<^verbatim>\<open>pushException\<close> run in a state \<open>e0\<close>, and let an operation fail later
  in a state \<open>e2\<close> of the same script frame, with the handler list as the instruction left
  it and a stack no shorter than it was in \<open>e0\<close>. Then the unwinding catches the error in
  this frame: it reports the handler's counter and the frame's program to resume, and
  leaves the stack cut back to exactly the size recorded in \<open>e0\<close>, the message of the
  error as the current exception, and the handler popped.
\<close>

theorem exception_recovery:
  assumes "opcode bc = BcPushException"
    and "step L p n bc e0 = Some (Continue p' n' e1)"
    and "excep (curframe e2) = excep (curframe e1)"
    and "isScript (curframe e2)" and "\<not> isTop (curframe e2)" and "\<not> breaker e2"
    and "stackSize_of e0 \<le> stackSize_of e2"
  shows "\<exists>bt e3. unwindForExcep breaker (Some err) e2
                  = Some ((argument bc, prog (curframe e2), bt, True), e3)
          \<and> stackSize_of e3 = stackSize_of e0
          \<and> Stack e3 = take (length (Stack e0)) (Stack e2)
          \<and> curexcep e3 = VStr err
          \<and> excep (curframe e3) = excep (curframe e0)"
proof -
  have e1: "e1 = pushExcep (argument bc) (stackSize_of e0) e0"
    using assms(1,2) by (simp add: step_PushException)
  have ex: "excep (curframe e2) = excep (curframe e0) @ [\<lparr>handlerPc = argument bc, stackSize = stackSize_of e0\<rparr>]"
    using assms(3) e1 by (simp add: pushExcep_def)
  have cur: "curExcep e2 = Some \<lparr>handlerPc = argument bc, stackSize = stackSize_of e0\<rparr>"
    by (simp add: curExcep_def ex)
  have pt: "popTo (int (length (Stack e0))) e2 = Some (e2\<lparr>Stack := take (length (Stack e0)) (Stack e2)\<rparr>)"
    using assms(7) by (simp add: popTo_def stackSize_of_def)
  show ?thesis
    unfolding unwindForExcep_def stackSize_of_def
    apply (subst unwind_loop.simps)
    using assms(4,5,6) assms(7) [unfolded stackSize_of_def]
    apply (simp add: cur [unfolded stackSize_of_def] pt popExcep_def ex [unfolded stackSize_of_def])
    done
qed

lemma bcList_try_prog:
  "bcList try_prog =
     [\<lparr>opcode = BcPushException, argument = 5\<rparr>, \<lparr>opcode = BcLoadInt, argument = 0\<rparr>,
      \<lparr>opcode = BcLoadInt, argument = 1\<rparr>, \<lparr>opcode = BcDiv, argument = 0\<rparr>,
      \<lparr>opcode = BcPopException, argument = 7\<rparr>, \<lparr>opcode = BcLoadException, argument = 0\<rparr>,
      \<lparr>opcode = BcReturn, argument = 0\<rparr>, \<lparr>opcode = BcHalt, argument = 0\<rparr>]"
  "intPool try_prog = [1, 0]" "progtype try_prog = ProgRule"
  by (simp_all add: try_prog_def mk_rule_def)

lemma runRuleImpl_entry:
  "Context e \<noteq> None \<Longrightarrow> runRuleImpl L ev p e = runRule_recover L p 0 (rule_entry e p ev)"
  by (cases e) (simp add: runRuleImpl_def rule_entry_def Let_def clearStack_def push_def
      prologue_def markTop_def)

lemmas stack_simps = top0_def top1_def topN_def slice_at_def pop_def popN_def push_def popTo_def
  stackSize_of_def

lemma step_try_0:
  "runP L try_prog 0 (rule_entry e try_prog ev)
   = Some (rrErr (Some try_prog) 3 ''divide zero'',
           (rule_entry e try_prog ev)
             \<lparr>curframe := (curframe (rule_entry e try_prog ev))
                \<lparr>excep := [\<lparr>handlerPc = 5, stackSize = 3\<rparr>]\<rparr>\<rparr>)"
  apply (subst runP.simps, simp add: bcList_try_prog step_def stack_simps pushExcep_def rule_entry_def)
  apply (subst runP.simps, simp add: bcList_try_prog step_def stack_simps)
  apply (subst runP.simps, simp add: bcList_try_prog step_def stack_simps)
  apply (subst runP.simps, simp add: bcList_try_prog step_def step_bin_def stack_simps)
  done


lemmas vm_simps = stack_simps isDone_def isNextRule_def rrErr_def rrDone_def rrNextRule_def
  isTop_def isScript_def curExcep_def popExcep_def prevfuncframe_def prevframepos_def
  popfuncframe_def epilogue_def

lemma try_divide_zero:
  "runRuleImpl L ev try_prog NewEvaluator
   = Some ((VStr ''divide zero'', None, False),
           NewEvaluator\<lparr>Stack := [], curexcep := VStr ''divide zero'',
             curframe := \<lparr>ftype = FtypeTop, farg = 0, pc = 1, framep = 0, prog = None,
                           excep = [], closure = None\<rparr>\<rparr>)"
proof -
  have c: "Context NewEvaluator \<noteq> None"
    by (simp add: NewEvaluator_def)
  show ?thesis
    apply (simp only: runRuleImpl_entry [OF c])
    apply (subst runRule_recover.simps)
    apply (simp only: step_try_0)
    apply (simp add: vm_simps unwindForExcep_def rule_entry_def)
    apply (subst unwind_loop.simps)
    apply (simp add: vm_simps)
    apply (subst runRule_recover.simps)
    apply (subst runP.simps, simp add: bcList_try_prog step_def vm_simps)
    apply (subst runP.simps, simp add: bcList_try_prog step_def vm_simps)
    done
qed


lemma recover_resumes_at_handler:
  assumes "runP L p n e = Some (rr, e2)" and "rstate rr = RstateInterrupt"
    and "unwindForExcep (\<lambda>e'. isTop (curframe e')) (rr_e rr) e2 = Some ((h, Some q, bt, True), e3)"
  shows "runRule_recover L p n e = runRule_recover L q h e3"
  by (subst runRule_recover.simps) (simp add: assms isDone_def isNextRule_def)

theorem exception_recovery_witness:
  "opcode \<lparr>opcode = BcPushException, argument = 5\<rparr> = BcPushException
   \<and> step example_lib try_prog 0 \<lparr>opcode = BcPushException, argument = 5\<rparr>
        (rule_entry NewEvaluator try_prog VNull)
      = Some (Continue try_prog 0 (pushExcep 5 3 (rule_entry NewEvaluator try_prog VNull)))
   \<and> isScript (curframe (push (VInt 1) (pushExcep 5 3 (rule_entry NewEvaluator try_prog VNull))))
   \<and> \<not> isTop (curframe (push (VInt 1) (pushExcep 5 3 (rule_entry NewEvaluator try_prog VNull))))
   \<and> stackSize_of (rule_entry NewEvaluator try_prog VNull) = 3
   \<and> stackSize_of (push (VInt 1) (pushExcep 5 3 (rule_entry NewEvaluator try_prog VNull))) = 4
   \<and> (\<exists>bt e3. unwindForExcep (\<lambda>e. isTop (curframe e)) (Some ''divide zero'')
                  (push (VInt 1) (pushExcep 5 3 (rule_entry NewEvaluator try_prog VNull)))
                = Some ((5, Some try_prog, bt, True), e3)
          \<and> stackSize_of e3 = 3 \<and> curexcep e3 = VStr ''divide zero''
          \<and> excep (curframe e3) = [])"
proof -
  let ?bc = "\<lparr>opcode = BcPushException, argument = 5\<rparr>"
  let ?e0 = "rule_entry NewEvaluator try_prog VNull"
  let ?e1 = "pushExcep 5 3 ?e0"
  let ?e2 = "push (VInt 1) ?e1"
  have h1: "opcode ?bc = BcPushException"
    by simp
  have sz: "stackSize_of ?e0 = 3" "stackSize_of ?e2 = 4"
    by (simp_all add: stackSize_of_def rule_entry_def push_def pushExcep_def)
  have h2: "step example_lib try_prog 0 ?bc ?e0 = Some (Continue try_prog 0 ?e1)"
    by (simp add: step_PushException sz)
  have h3: "excep (curframe ?e2) = excep (curframe ?e1)"
    by (simp add: push_def)
  have h4: "isScript (curframe ?e2)" "\<not> isTop (curframe ?e2)"
    by (simp_all add: isScript_def isTop_def push_def pushExcep_def rule_entry_def)
  have h7: "stackSize_of ?e0 \<le> stackSize_of ?e2"
    by (simp add: sz)
  have p: "prog (curframe ?e2) = Some try_prog" "excep (curframe ?e0) = []"
    by (simp_all add: push_def pushExcep_def rule_entry_def)
  from exception_recovery [where breaker = "\<lambda>e. isTop (curframe e)" and err = "''divide zero''",
      OF h1 h2 h3 h4(1) h4(2) h4(2) h7]
  have "\<exists>bt e3. unwindForExcep (\<lambda>e. isTop (curframe e)) (Some ''divide zero'') ?e2
                  = Some ((5, Some try_prog, bt, True), e3)
          \<and> stackSize_of e3 = 3 \<and> curexcep e3 = VStr ''divide zero''
          \<and> excep (curframe e3) = []"
    by (simp add: p sz) blast
  with h1 h2 h4 sz show ?thesis
    by simp
qed

section \<open>Rule chaining\<close>

lemma runRuleList_chain:
  "chain_nextRule L ev pre e = Some e1 \<Longrightarrow>
   runRuleList L ev (pre @ rest) e = runRuleList L ev rest e1"
proof (induction pre arbitrary: e)
  case Nil
  then show ?case by simp
next
  case (Cons q pre)
  then show ?case
    by (auto split: option.splits bool.splits prod.splits)
qed

text \<open>
  Claim C4. The rules of an event run in the order of the list. When the rules \<open>pre\<close>
  each ended in \<^verbatim>\<open>nextRule\<close> and the next rule \<open>p\<close> returns without it, the evaluation
  stops there with the value and error of \<open>p\<close>, and the rules \<open>post\<close> after it do not
  run; when every rule of the list ended in \<^verbatim>\<open>nextRule\<close>, the result is null. A run
  that stops at the instruction \<^verbatim>\<open>nextRule\<close> is a rule ending in it, with a null
  value (\<open>runRule_recover_NextRule\<close>); a run that is done yields the value on top of the
  stack (\<open>runRule_recover_Done\<close>).
\<close>

theorem rule_chaining:
  "(chain_nextRule L ev pre e = Some e1 \<and> runRuleImpl L ev p e1 = Some ((v, err, False), e2)
      \<longrightarrow> runRuleList L ev (pre @ p # post) e = Some ((v, err), e2))
   \<and> (chain_nextRule L ev pre e = Some e1
      \<longrightarrow> runRuleList L ev pre e = Some ((VNull, None), e1))"
proof (intro conjI impI)
  assume "chain_nextRule L ev pre e = Some e1 \<and> runRuleImpl L ev p e1 = Some ((v, err, False), e2)"
  then show "runRuleList L ev (pre @ p # post) e = Some ((v, err), e2)"
    by (simp add: runRuleList_chain)
next
  assume "chain_nextRule L ev pre e = Some e1"
  from runRuleList_chain [OF this, of "[]"]
  show "runRuleList L ev pre e = Some ((VNull, None), e1)"
    by simp
qed

lemma runRule_recover_NextRule:
  assumes "runP L p n e = Some (rr, e1)" and "rstate rr = RstateNextRule"
  shows "runRule_recover L p n e = Some ((VNull, None, True), e1)"
  by (subst runRule_recover.simps) (simp add: assms isDone_def isNextRule_def)

lemma runRule_recover_Done:
  assumes "runP L p n e = Some (rr, e1)" and "rstate rr = RstateDone" and "Stack e1 \<noteq> []"
  shows "runRule_recover L p n e
         = Some ((last (Stack e1), None, False), e1\<lparr>Stack := butlast (Stack e1)\<rparr>)"
  by (subst runRule_recover.simps) (simp add: assms isDone_def top0_last pop_butlast)

lemma bcList_rules:
  "bcList next_prog = [\<lparr>opcode = BcNextRule, argument = 0\<rparr>]"
  "bcList seven_prog = [\<lparr>opcode = BcLoadInt, argument = 0\<rparr>, \<lparr>opcode = BcReturn, argument = 0\<rparr>]"
  "intPool seven_prog = [7]"
  "bcList halt_prog = [\<lparr>opcode = BcHalt, argument = 0\<rparr>]"
  "bcList emit_prog = [\<lparr>opcode = BcLoadStr, argument = 0\<rparr>, \<lparr>opcode = BcLoadNull, argument = 0\<rparr>,
                       \<lparr>opcode = BcEmit, argument = 0\<rparr>, \<lparr>opcode = BcHalt, argument = 0\<rparr>]"
  "strPool emit_prog = [''child'']"
  by (simp_all add: next_prog_def seven_prog_def halt_prog_def emit_prog_def mk_rule_def)

lemma run_next_prog:
  assumes c: "Context e \<noteq> None"
  shows "runRuleImpl L ev next_prog e = Some ((VNull, None, True), rule_entry e next_prog ev)"
  apply (simp only: runRuleImpl_entry [OF c])
  apply (rule runRule_recover_NextRule [where rr = "rrNextRule 0"])
   apply (subst runP.simps, simp add: bcList_rules step_def vm_simps)
  apply (simp add: rrNextRule_def)
  done

lemma run_halt_prog:
  assumes c: "Context e \<noteq> None"
  shows "runRuleImpl L ev halt_prog e = Some ((VNull, None, False), rule_entry e halt_prog ev)"
  apply (simp only: runRuleImpl_entry [OF c])
  apply (subst runRule_recover.simps)
  apply (subst runP.simps, simp add: bcList_rules step_def vm_simps rule_entry_def)
  done

lemma run_seven_prog:
  assumes c: "Context e \<noteq> None"
  shows "runRuleImpl L ev seven_prog e = Some ((VInt 7, None, False), after_return e)"
  apply (simp only: runRuleImpl_entry [OF c])
  apply (subst runRule_recover.simps)
  apply (subst runP.simps, simp add: bcList_rules step_def vm_simps rule_entry_def)
  apply (subst runP.simps, simp add: bcList_rules step_def vm_simps after_return_def)
  done

lemma run_emit_prog:
  assumes c: "Context e \<noteq> None"
  shows "runRuleImpl L ev emit_prog e
   = Some ((VNull, None, False), (rule_entry e emit_prog ev)\<lparr>eventQ := eventQ e @ [(''child'', VNull)]\<rparr>)"
  apply (simp only: runRuleImpl_entry [OF c])
  apply (subst runRule_recover.simps)
  apply (subst runP.simps, simp add: bcList_rules step_def vm_simps rule_entry_def)
  apply (subst runP.simps, simp add: bcList_rules step_def vm_simps)
  apply (subst runP.simps, simp add: bcList_rules step_def vm_simps emitEvent_def)
  apply (subst runP.simps, simp add: bcList_rules step_def vm_simps)
  done

theorem rule_chaining_witness:
  "chain_nextRule example_lib VNull [next_prog] NewEvaluator
     = Some (rule_entry NewEvaluator next_prog VNull)
   \<and> runRuleImpl example_lib VNull seven_prog (rule_entry NewEvaluator next_prog VNull)
     = Some ((VInt 7, None, False), after_return NewEvaluator)
   \<and> runRuleList example_lib VNull [next_prog, seven_prog, halt_prog] NewEvaluator
     = Some ((VInt 7, None), after_return NewEvaluator)
   \<and> runRuleList example_lib VNull [next_prog] NewEvaluator
     = Some ((VNull, None), rule_entry NewEvaluator next_prog VNull)"
proof -
  have c: "Context NewEvaluator \<noteq> None" "Context (rule_entry NewEvaluator next_prog VNull) \<noteq> None"
    by (simp_all add: NewEvaluator_def rule_entry_def)
  have h1: "chain_nextRule example_lib VNull [next_prog] NewEvaluator
            = Some (rule_entry NewEvaluator next_prog VNull)"
    by (simp add: run_next_prog c)
  have h2: "runRuleImpl example_lib VNull seven_prog (rule_entry NewEvaluator next_prog VNull)
            = Some ((VInt 7, None, False), after_return NewEvaluator)"
    by (simp add: run_seven_prog c after_return_def rule_entry_def)
  show ?thesis
    using rule_chaining [of example_lib VNull "[next_prog]" NewEvaluator
        "rule_entry NewEvaluator next_prog VNull" seven_prog "VInt 7" None
        "after_return NewEvaluator" "[halt_prog]"] h1 h2
    by simp
qed


section \<open>Draining the event queue\<close>

lemma drainEventQueue_reentrant:
  "inEventQueue e \<Longrightarrow> drainEventQueue L m e = Some e"
  by (simp add: drainEventQueue_def)

lemma entry_points_drain:
  "Eval L ev m e = Some (r, e') \<Longrightarrow> \<exists>e1. drainEventQueue L m e1 = Some e'"
  "EvalWithContext L ev ctx m e = Some (r, e') \<Longrightarrow> \<exists>e1. drainEventQueue L m e1 = Some e'"
  "EvalSession L m e = Some (er, e') \<Longrightarrow> \<exists>e1. drainEventQueue L m e1 = Some e'"
  "EvalGlobal L m e = Some (er, e', m') \<Longrightarrow> \<exists>e1. drainEventQueue L m' e1 = Some e'"
  by (auto simp: Eval_def EvalWithContext_def EvalSession_def EvalGlobal_def Let_def
      split: option.splits if_splits prod.splits)

lemma Drain_child:
  assumes "Context e \<noteq> None" and "eventQ e = [(''child'', VNull)]"
  shows "Drain L emit_module 0 e = Some (0, (rule_entry e halt_prog VNull)\<lparr>eventQ := []\<rparr>)"
proof -
  have c: "Context (e\<lparr>eventQ := []\<rparr>) \<noteq> None"
    using assms(1) by simp
  have d: "EvalDeferred L ''child'' VNull emit_module (e\<lparr>eventQ := []\<rparr>)
           = Some ((VNull, None), rule_entry (e\<lparr>eventQ := []\<rparr>) halt_prog VNull)"
    by (simp add: EvalDeferred_def findEvent_def emit_module_def run_halt_prog [OF c])
  have q: "eventQ (rule_entry (e\<lparr>eventQ := []\<rparr>) halt_prog VNull) = []"
    by (simp add: rule_entry_def)
  have r: "rule_entry (e\<lparr>eventQ := []\<rparr>) halt_prog VNull = (rule_entry e halt_prog VNull)\<lparr>eventQ := []\<rparr>"
    by (simp add: rule_entry_def)
  show ?thesis
    apply (subst Drain.simps)
    apply (simp add: assms(2) d)
    apply (subst Drain.simps)
    apply (simp add: q r)
    done
qed

lemma drain_after_emit:
  assumes "Context e \<noteq> None" and "\<not> inEventQueue e" and "eventQ e = [(''child'', VNull)]"
  shows "drainEventQueue L emit_module e
         = Some ((rule_entry e halt_prog VNull)\<lparr>eventQ := [], inEventQueue := False\<rparr>)"
proof -
  have c: "Context (e\<lparr>inEventQueue := True\<rparr>) \<noteq> None"
    using assms(1) by simp
  have q: "eventQ (e\<lparr>inEventQueue := True\<rparr>) = [(''child'', VNull)]"
    using assms(3) by simp
  have d: "Drain L emit_module 0 (e\<lparr>inEventQueue := True\<rparr>)
           = Some (0, (rule_entry (e\<lparr>inEventQueue := True\<rparr>) halt_prog VNull)\<lparr>eventQ := []\<rparr>)"
    by (rule Drain_child [OF c q])
  have r: "(rule_entry (e\<lparr>inEventQueue := True\<rparr>) halt_prog VNull)\<lparr>eventQ := [], inEventQueue := False\<rparr>
           = (rule_entry e halt_prog VNull)\<lparr>eventQ := [], inEventQueue := False\<rparr>"
    by (simp add: rule_entry_def)
  have "drainEventQueue L emit_module e
        = Some ((rule_entry (e\<lparr>inEventQueue := True\<rparr>) halt_prog VNull)
                  \<lparr>eventQ := [], inEventQueue := False\<rparr>)"
    unfolding drainEventQueue_def d using assms(2) by (simp add: EventContextStopAndClear_def)
  then show ?thesis
    by (simp only: r)
qed

lemma after_emit_facts:
  assumes "Context e \<noteq> None" and "\<not> inEventQueue e" and "eventQ e = []"
  shows "Context (after_emit e) \<noteq> None" and "\<not> inEventQueue (after_emit e)"
    and "eventQ (after_emit e) = [(''child'', VNull)]"
  using assms by (simp_all add: after_emit_def rule_entry_def)

lemma runRuleImpl_emit:
  assumes "Context e \<noteq> None"
  shows "runRuleImpl L VNull emit_prog e = Some ((VNull, None, False), after_emit e)"
  unfolding after_emit_def using run_emit_prog [OF assms, of L VNull]
  by (simp add: rule_entry_def)

lemma drain_after_emit':
  assumes "Context e \<noteq> None" and "\<not> inEventQueue e" and "eventQ e = []"
  shows "drainEventQueue L emit_module (after_emit e) = Some (after_drain (after_emit e))"
  unfolding after_drain_def
  by (rule drain_after_emit [OF after_emit_facts [OF assms]])

lemma NewEvaluator_facts:
  "Context NewEvaluator \<noteq> None" "\<not> inEventQueue NewEvaluator" "eventQ NewEvaluator = []"
  "Config NewEvaluator \<noteq> None"
  "Context (NewEvaluator\<lparr>Session := []\<rparr>) \<noteq> None"
  "\<not> inEventQueue (NewEvaluator\<lparr>Session := []\<rparr>)"
  "eventQ (NewEvaluator\<lparr>Session := []\<rparr>) = []"
  by (simp_all add: NewEvaluator_def)

lemma emit_module_facts:
  "config emit_module = Some emit_prog" "session emit_module = [emit_prog]"
  "globalProgram emit_module = [emit_prog]"
  "findEvent emit_module ''e'' = Some [emit_prog]"
  "HasSession emit_module" "HasGlobal emit_module"
  by (simp_all add: emit_module_def findEvent_def HasSession_def HasGlobal_def)

lemma EvalConfig_emit:
  "EvalConfig L emit_module NewEvaluator = Some (None, after_emit NewEvaluator)"
  by (simp add: EvalConfig_def emit_module_facts NewEvaluator_facts runRule_def
      runRuleImpl_emit [OF NewEvaluator_facts(1)])

lemma Eval_emit:
  "Eval L ''e'' emit_module NewEvaluator
   = Some ((VNull, None), after_drain (after_emit NewEvaluator))"
proof -
  have r: "runRuleList L VNull [emit_prog] NewEvaluator = Some ((VNull, None), after_emit NewEvaluator)"
    by (simp add: runRuleImpl_emit [OF NewEvaluator_facts(1)])
  show ?thesis
    by (simp only: Eval_def emit_module_facts option.case r prod.case
        drain_after_emit' [OF NewEvaluator_facts(1,2,3)])
qed

lemma EvalSession_emit:
  "EvalSession L emit_module NewEvaluator
   = Some (None, after_drain (after_emit (NewEvaluator\<lparr>Session := []\<rparr>)))"
proof -
  have r: "runRules L [emit_prog] (NewEvaluator\<lparr>Session := []\<rparr>)
           = Some (None, after_emit (NewEvaluator\<lparr>Session := []\<rparr>))"
    by (simp add: runRule_def runRuleImpl_emit [OF NewEvaluator_facts(5)])
  show ?thesis
    by (simp only: EvalSession_def emit_module_facts not_True_eq_False if_False option.case r
        prod.case drain_after_emit' [OF NewEvaluator_facts(5,6,7)])
qed

lemma after_facts:
  "eventQ (after_emit NewEvaluator) = [(''child'', VNull)]"
  "inEventQueue (after_emit NewEvaluator) = False"
  "eventQ (after_drain e) = []" "inEventQueue (after_drain e) = False"
  by (simp_all add: after_emit_def after_drain_def rule_entry_def NewEvaluator_def)

text \<open>
  Claim C1. Every entry point is to call \<^verbatim>\<open>drainEventQueue\<close> after its rules
  returned, and a drain entered while another is in progress is to return at once. The
  second part holds (\<open>drainEventQueue_reentrant\<close>), and \<^verbatim>\<open>EvalGlobal\<close>,
  \<^verbatim>\<open>EvalSession\<close>, \<^verbatim>\<open>Eval\<close> and \<^verbatim>\<open>EvalWithContext\<close> end in a drain
  (\<open>entry_points_drain\<close>). \<^verbatim>\<open>EvalConfig\<close> does not: when the config rule of a module
  emits the event \<open>child\<close>, the event is still queued when \<^verbatim>\<open>EvalConfig\<close> returns,
  while the same rule run by \<^verbatim>\<open>Eval\<close> or \<^verbatim>\<open>EvalSession\<close> leaves the queue drained.
\<close>

theorem EvalConfig_leaves_event_queued:
  "map_option (\<lambda>(er, e'). (er, eventQ e', inEventQueue e'))
     (EvalConfig example_lib emit_module NewEvaluator)
   = Some (None, [(''child'', VNull)], False)
   \<and> map_option (\<lambda>(r, e'). (r, eventQ e', inEventQueue e'))
       (Eval example_lib ''e'' emit_module NewEvaluator)
     = Some ((VNull, None), [], False)
   \<and> map_option (\<lambda>(r, e'). (r, eventQ e', inEventQueue e'))
       (EvalSession example_lib emit_module NewEvaluator)
     = Some (None, [], False)"
  by (simp add: EvalConfig_emit Eval_emit EvalSession_emit after_facts)

end
